theory Spec2Isabelle
  imports Complex_Main "HOL-Library.Multiset"
begin

section \<open>JavaScript values\<close>

text \<open>
  A JavaScript Number is an IEEE-754 double. Nothing below depends on how the host rounds:
  the arithmetic operators, \<open>Math.sqrt\<close>, \<open>Math.pow\<close>, \<open>parseFloat\<close> and
  \<open>parseInt(_, 10)\<close> are the fields of a record that every function of the metric engine
  takes as its first argument, and \<open>num\<close> turns a literal or an array length into a Number.
  Every theorem holds for every such record, so also for the host's own arithmetic.
\<close>

record 'n numOps =
  parseFloat :: "string \<Rightarrow> 'n"
  parseInt10 :: "string \<Rightarrow> 'n"
  num :: "nat \<Rightarrow> 'n"
  n_add :: "'n \<Rightarrow> 'n \<Rightarrow> 'n"
  n_sub :: "'n \<Rightarrow> 'n \<Rightarrow> 'n"
  n_mul :: "'n \<Rightarrow> 'n \<Rightarrow> 'n"
  n_div :: "'n \<Rightarrow> 'n \<Rightarrow> 'n"
  mathSqrt :: "'n \<Rightarrow> 'n"
  mathPow :: "'n \<Rightarrow> 'n \<Rightarrow> 'n"

text \<open>What a \<open>throw\<close> carries: the runtime's TypeError or an Error built by the code.\<close>

datatype jsError = TypeError string | ErrorObj string

fun message :: "jsError \<Rightarrow> string" where
  "message (TypeError m) = m"
| "message (ErrorObj m) = m"

text \<open>
  Truthiness of a property that holds a string when present: \<open>undefined\<close> (absent) and the
  empty string are falsy, every other string is truthy.
\<close>

definition truthy :: "string option \<Rightarrow> bool" where
  "truthy v = (case v of None \<Rightarrow> False | Some s \<Rightarrow> s \<noteq> [])"

text \<open>\<open>null\<close> used as an operand of an arithmetic operator is converted to \<open>+0\<close>.\<close>

definition toNumber :: "'n numOps \<Rightarrow> 'n option \<Rightarrow> 'n" where
  "toNumber ops v = (case v of None \<Rightarrow> num ops 0 | Some x \<Rightarrow> x)"

section \<open>Data model\<close>

text \<open>
  One daily bar of the upstream price source; the values are decimal strings under the keys
  \<open>1. open\<close>, \<open>2. high\<close>, \<open>3. low\<close>, \<open>4. close\<close>, \<open>5. volume\<close>.
\<close>

record bar =
  b_open :: string
  b_high :: string
  b_low :: string
  b_close :: string
  b_volume :: string

text \<open>
  The \<open>timeSeries\<close> object, date string to bar, as the list of its entries in key order
  (\<open>Object.keys\<close> is \<open>map fst\<close>, a property read is \<open>map_of\<close>). The raw record of one
  equity: the extractor's success shape has \<open>timeSeries\<close> and \<open>overview\<close>, its failure
  shape has \<open>error\<close>; an absent property is \<open>None\<close>.
\<close>

type_synonym timeSeries = "(string \<times> bar) list"

record rawStock =
  rs_symbol :: string
  rs_timeSeries :: "timeSeries option"
  rs_overview :: "(string \<rightharpoonup> string) option"
  rs_error :: "string option"
  rs_extractedAt :: string

text \<open>One bar of the index source: \<open>{date, open, high, low, close, volume}\<close>, numbers.\<close>

record 'n hbar =
  h_date :: string
  h_open :: 'n
  h_high :: 'n
  h_low :: 'n
  h_close :: 'n
  h_volume :: 'n

record 'n rawMarket =
  rm_index :: string
  rm_historical :: "'n hbar list option"
  rm_error :: "string option"
  rm_extractedAt :: string

text \<open>The blocks of a metrics record; \<open>null\<close> is \<open>None\<close>.\<close>

record 'n price =
  p_open :: 'n
  p_high :: 'n
  p_low :: 'n
  p_close :: 'n
  p_volume :: 'n

record 'n priceChanges =
  change7d :: "'n option"
  change30d :: "'n option"
  change90d :: "'n option"
  percentChange7d :: "'n option"
  percentChange30d :: "'n option"
  percentChange90d :: "'n option"

record 'n volatility =
  volatility30d :: "'n option"

record 'n fundamentals =
  marketCap :: "'n option"
  peRatio :: "'n option"
  dividendYield :: "'n option"
  eps :: "'n option"
  revenue :: "'n option"
  grossProfit :: "'n option"
  profitMargin :: "'n option"
  operatingMargin :: "'n option"
  roa :: "'n option"
  roe :: "'n option"
  dilutedEPS :: "'n option"

text \<open>
  The metrics record of an equity. The short-circuit returns build an object with
  \<open>symbol\<close>, \<open>error\<close> and \<open>transformedAt\<close> only: every other property is absent.
\<close>

record 'n stockMetrics =
  sm_symbol :: string
  sm_date :: "string option"
  sm_price :: "'n price option"
  sm_priceChanges :: "'n priceChanges option"
  sm_volatility :: "'n volatility option"
  sm_fundamentals :: "'n fundamentals option"
  sm_error :: "string option"
  sm_transformedAt :: string

record 'n marketIndicators =
  mi_index :: string
  mi_date :: "string option"
  mi_price :: "'n price option"
  mi_priceChanges :: "'n priceChanges option"
  mi_volatility :: "'n volatility option"
  mi_error :: "string option"
  mi_transformedAt :: string

section \<open>Metric engine (transform.js)\<close>

text \<open>
  \<open>xs.sort((a, b) => new Date(b) - new Date(a))\<close>: the stable sort by descending time
  value. \<open>tv\<close> is the time value of a date string (\<open>new Date(s)\<close> as a number), a
  parameter; the date strings of the upstream sources are valid dates.
\<close>

definition sortDesc :: "(string \<Rightarrow> int) \<Rightarrow> ('a \<Rightarrow> string) \<Rightarrow> 'a list \<Rightarrow> 'a list" where
  "sortDesc tv key xs = sort_key (\<lambda>x. - tv (key x)) xs"

text \<open>\<open>xs.reduce((sum, value) => sum + value, 0)\<close>\<close>

definition reduceSum :: "'n numOps \<Rightarrow> 'n list \<Rightarrow> 'n" where
  "reduceSum ops xs = foldl (n_add ops) (num ops 0) xs"

text \<open>
  Lines 69 to 73 and 192 to 196, the same text in both functions: mean, squared
  differences, variance, and the annualised percentage.
\<close>

definition annualize :: "'n numOps \<Rightarrow> 'n list \<Rightarrow> 'n" where
  "annualize ops returns =
     (let mean = n_div ops (reduceSum ops returns) (num ops (length returns));
          squaredDiffs = map (\<lambda>v. mathPow ops (n_sub ops v mean) (num ops 2)) returns;
          variance = n_div ops (reduceSum ops squaredDiffs) (num ops (length returns))
      in n_mul ops (n_mul ops (mathSqrt ops variance) (mathSqrt ops (num ops 252))) (num ops 100))"

text \<open>
  The loop \<open>for (let i = 0; i < 30; i++)\<close> of \<open>calculateStockMetrics\<close>, with its inner
  guard \<open>i + 1 < dates.length\<close>. Reading \<open>['4. close']\<close> of a date that is no key of
  \<open>timeSeries\<close> throws.
\<close>

function stockReturns :: "'n numOps \<Rightarrow> timeSeries \<Rightarrow> string list \<Rightarrow> nat \<Rightarrow> 'n list
    \<Rightarrow> jsError + 'n list" where
  "stockReturns ops ts dates i returns =
     (if i < 30 then
        (if i + 1 < length dates then
           (case map_of ts (dates ! i) of
              None \<Rightarrow> Inl (TypeError ''Cannot read properties of undefined'')
            | Some cur \<Rightarrow>
               (case map_of ts (dates ! (i + 1)) of
                  None \<Rightarrow> Inl (TypeError ''Cannot read properties of undefined'')
                | Some prev \<Rightarrow>
                    (let currentClose = parseFloat ops (b_close cur);
                         previousClose = parseFloat ops (b_close prev);
                         dailyReturn = n_div ops (n_sub ops currentClose previousClose) previousClose
                     in stockReturns ops ts dates (i + 1) (returns @ [dailyReturn]))))
         else stockReturns ops ts dates (i + 1) returns)
      else Inr returns)"
  by pat_completeness auto
termination
  by (relation "measure (\<lambda>(ops, ts, dates, i, returns). 30 - i)") auto

declare stockReturns.simps [simp del]

text \<open>\<open>overview.F ? parseFloat(overview.F) : null\<close>, and the same with \<open>* 100\<close>.\<close>

definition ratio :: "'n numOps \<Rightarrow> (string \<rightharpoonup> string) \<Rightarrow> string \<Rightarrow> 'n option" where
  "ratio ops ov f =
     (case ov f of None \<Rightarrow> None
      | Some s \<Rightarrow> if truthy (Some s) then Some (parseFloat ops s) else None)"

definition ratio100 :: "'n numOps \<Rightarrow> (string \<rightharpoonup> string) \<Rightarrow> string \<Rightarrow> 'n option" where
  "ratio100 ops ov f =
     (case ov f of None \<Rightarrow> None
      | Some s \<Rightarrow> if truthy (Some s) then Some (n_mul ops (parseFloat ops s) (num ops 100)) else None)"

text \<open>
  \<open>d ? latestClose - parseFloat(d['4. close']) : null\<close> and
  \<open>d ? (change / parseFloat(d['4. close'])) * 100 : null\<close>; a bar object is truthy,
  \<open>undefined\<close> and \<open>null\<close> are not.
\<close>

definition stockChange :: "'n numOps \<Rightarrow> 'n \<Rightarrow> bar option \<Rightarrow> 'n option" where
  "stockChange ops latestClose d =
     (case d of None \<Rightarrow> None
      | Some b \<Rightarrow> Some (n_sub ops latestClose (parseFloat ops (b_close b))))"

definition stockPercent :: "'n numOps \<Rightarrow> 'n option \<Rightarrow> bar option \<Rightarrow> 'n option" where
  "stockPercent ops change d =
     (case d of None \<Rightarrow> None
      | Some b \<Rightarrow>
          Some (n_mul ops (n_div ops (toNumber ops change) (parseFloat ops (b_close b))) (num ops 100)))"

text \<open>
  \<open>calculateStockMetrics\<close>. \<open>now\<close> is the reading of the clock,
  \<open>new Date().toISOString()\<close>; each path to a \<open>return\<close> reads it once.
\<close>

definition calculateStockMetrics :: "'n numOps \<Rightarrow> (string \<Rightarrow> int) \<Rightarrow> string \<Rightarrow> rawStock
    \<Rightarrow> jsError + 'n stockMetrics" where
  "calculateStockMetrics ops tv now stockData =
     (if truthy (rs_error stockData) then
        Inr \<lparr> sm_symbol = rs_symbol stockData, sm_date = None, sm_price = None,
              sm_priceChanges = None, sm_volatility = None, sm_fundamentals = None,
              sm_error = rs_error stockData, sm_transformedAt = now \<rparr>
      else
        (case rs_timeSeries stockData of
           None \<Rightarrow> Inl (TypeError ''Cannot convert undefined or null to object'')
         | Some ts \<Rightarrow>
            (let dates = sortDesc tv id (map fst ts) in
             if length dates = 0 then
               Inr \<lparr> sm_symbol = rs_symbol stockData, sm_date = None, sm_price = None,
                     sm_priceChanges = None, sm_volatility = None, sm_fundamentals = None,
                     sm_error = Some ''No time series data available'', sm_transformedAt = now \<rparr>
             else
               (let latestDate = dates ! 0 in
                case map_of ts latestDate of
                  None \<Rightarrow> Inl (TypeError ''Cannot read properties of undefined'')
                | Some latestData \<Rightarrow>
                   (let day7Data = (if length dates > 7 then map_of ts (dates ! 7) else None);
                        day30Data = (if length dates > 30 then map_of ts (dates ! 30) else None);
                        day90Data = (if length dates > 90 then map_of ts (dates ! 90) else None);
                        latestClose = parseFloat ops (b_close latestData);
                        priceChange7d = stockChange ops latestClose day7Data;
                        priceChange30d = stockChange ops latestClose day30Data;
                        priceChange90d = stockChange ops latestClose day90Data;
                        percentChange7d' = stockPercent ops priceChange7d day7Data;
                        percentChange30d' = stockPercent ops priceChange30d day30Data;
                        percentChange90d' = stockPercent ops priceChange90d day90Data
                    in
                    (case (if length dates > 30
                           then map_sum id (\<lambda>returns. Some (annualize ops returns))
                                  (stockReturns ops ts dates 0 [])
                           else Inr None) of
                       Inl e \<Rightarrow> Inl e
                     | Inr volatility30d' \<Rightarrow>
                        (case rs_overview stockData of
                           None \<Rightarrow> Inl (TypeError ''Cannot destructure property of undefined'')
                         | Some ov \<Rightarrow>
                             Inr \<lparr> sm_symbol = rs_symbol stockData,
                                   sm_date = Some latestDate,
                                   sm_price = Some \<lparr> p_open = parseFloat ops (b_open latestData),
                                                     p_high = parseFloat ops (b_high latestData),
                                                     p_low = parseFloat ops (b_low latestData),
                                                     p_close = latestClose,
                                                     p_volume = parseInt10 ops (b_volume latestData) \<rparr>,
                                   sm_priceChanges = Some \<lparr> change7d = priceChange7d,
                                                            change30d = priceChange30d,
                                                            change90d = priceChange90d,
                                                            percentChange7d = percentChange7d',
                                                            percentChange30d = percentChange30d',
                                                            percentChange90d = percentChange90d' \<rparr>,
                                   sm_volatility = Some \<lparr> volatility30d = volatility30d' \<rparr>,
                                   sm_fundamentals = Some
                                     \<lparr> marketCap = ratio ops ov ''MarketCapitalization'',
                                       peRatio = ratio ops ov ''PERatio'',
                                       dividendYield = ratio100 ops ov ''DividendYield'',
                                       eps = ratio ops ov ''EPS'',
                                       revenue = ratio ops ov ''RevenueTTM'',
                                       grossProfit = ratio ops ov ''GrossProfitTTM'',
                                       profitMargin = ratio100 ops ov ''ProfitMargin'',
                                       operatingMargin = ratio100 ops ov ''OperatingMarginTTM'',
                                       roa = ratio100 ops ov ''ReturnOnAssetsTTM'',
                                       roe = ratio100 ops ov ''ReturnOnEquityTTM'',
                                       dilutedEPS = ratio ops ov ''DilutedEPSTTM'' \<rparr>,
                                   sm_error = None,
                                   sm_transformedAt = now \<rparr>)))))))"

text \<open>
  The loop of \<open>calculateMarketIndicators\<close>: the same, on the sorted array itself. Under
  the guard both indices are in range.
\<close>

function marketReturns :: "'n numOps \<Rightarrow> 'n hbar list \<Rightarrow> nat \<Rightarrow> 'n list \<Rightarrow> 'n list" where
  "marketReturns ops sortedData i returns =
     (if i < 30 then
        (if i + 1 < length sortedData then
           (let currentClose = h_close (sortedData ! i);
                previousClose = h_close (sortedData ! (i + 1));
                dailyReturn = n_div ops (n_sub ops currentClose previousClose) previousClose
            in marketReturns ops sortedData (i + 1) (returns @ [dailyReturn]))
         else marketReturns ops sortedData (i + 1) returns)
      else returns)"
  by pat_completeness auto
termination
  by (relation "measure (\<lambda>(ops, sortedData, i, returns). 30 - i)") auto

declare marketReturns.simps [simp del]

definition marketChange :: "'n numOps \<Rightarrow> 'n \<Rightarrow> 'n hbar option \<Rightarrow> 'n option" where
  "marketChange ops latestClose d =
     (case d of None \<Rightarrow> None | Some b \<Rightarrow> Some (n_sub ops latestClose (h_close b)))"

definition marketPercent :: "'n numOps \<Rightarrow> 'n option \<Rightarrow> 'n hbar option \<Rightarrow> 'n option" where
  "marketPercent ops change d =
     (case d of None \<Rightarrow> None
      | Some b \<Rightarrow> Some (n_mul ops (n_div ops (toNumber ops change) (h_close b)) (num ops 100)))"

text \<open>\<open>calculateMarketIndicators\<close>\<close>

definition calculateMarketIndicators :: "'n numOps \<Rightarrow> (string \<Rightarrow> int) \<Rightarrow> string \<Rightarrow> 'n rawMarket
    \<Rightarrow> jsError + 'n marketIndicators" where
  "calculateMarketIndicators ops tv now marketData =
     (if truthy (rm_error marketData) then
        Inr \<lparr> mi_index = rm_index marketData, mi_date = None, mi_price = None,
              mi_priceChanges = None, mi_volatility = None,
              mi_error = rm_error marketData, mi_transformedAt = now \<rparr>
      else
        (case rm_historical marketData of
           None \<Rightarrow> Inl (TypeError ''historical is not iterable'')
         | Some historical \<Rightarrow>
            (let sortedData = sortDesc tv h_date historical in
             if length sortedData = 0 then
               Inr \<lparr> mi_index = rm_index marketData, mi_date = None, mi_price = None,
                     mi_priceChanges = None, mi_volatility = None,
                     mi_error = Some ''No historical data available'', mi_transformedAt = now \<rparr>
             else
               (let latestData = sortedData ! 0;
                    day7Data = (if length sortedData > 7 then Some (sortedData ! 7) else None);
                    day30Data = (if length sortedData > 30 then Some (sortedData ! 30) else None);
                    day90Data = (if length sortedData > 90 then Some (sortedData ! 90) else None);
                    latestClose = h_close latestData;
                    priceChange7d = marketChange ops latestClose day7Data;
                    priceChange30d = marketChange ops latestClose day30Data;
                    priceChange90d = marketChange ops latestClose day90Data;
                    percentChange7d' = marketPercent ops priceChange7d day7Data;
                    percentChange30d' = marketPercent ops priceChange30d day30Data;
                    percentChange90d' = marketPercent ops priceChange90d day90Data;
                    volatility30d' = (if length sortedData > 30
                                      then Some (annualize ops (marketReturns ops sortedData 0 []))
                                      else None)
                in Inr \<lparr> mi_index = rm_index marketData,
                         mi_date = Some (h_date latestData),
                         mi_price = Some \<lparr> p_open = h_open latestData,
                                           p_high = h_high latestData,
                                           p_low = h_low latestData,
                                           p_close = h_close latestData,
                                           p_volume = h_volume latestData \<rparr>,
                         mi_priceChanges = Some \<lparr> change7d = priceChange7d,
                                                  change30d = priceChange30d,
                                                  change90d = priceChange90d,
                                                  percentChange7d = percentChange7d',
                                                  percentChange30d = percentChange30d',
                                                  percentChange90d = percentChange90d' \<rparr>,
                         mi_volatility = Some \<lparr> volatility30d = volatility30d' \<rparr>,
                         mi_error = None,
                         mi_transformedAt = now \<rparr>))))"

section \<open>Extractor (extract.js)\<close>

text \<open>
  What the world answers to one \<open>axios.get\<close>: the promise rejects with an error (network
  failure, error status), or it resolves to a response whose \<open>data\<close> is the parsed body
  (\<open>None\<close> when the body is \<open>null\<close>). Of the body of the daily series the code reads the
  properties \<open>Error Message\<close> and \<open>Time Series (Daily)\<close>; the body of the overview is the
  mapping of ratio names itself; of the body of the index the code reads \<open>historical\<close>.
\<close>

type_synonym 'a answer = "jsError + 'a option"

record seriesBody =
  errorMessage :: "string option"
  timeSeriesDaily :: "timeSeries option"

record 'n indexBody =
  historical :: "'n hbar list option"

text \<open>
  The world of the fetch of one equity: the answers to its two requests, and the reading
  of the clock when it builds its result.
\<close>

record fetchWorld =
  seriesAnswer :: "seriesBody answer"
  overviewAnswer :: "(string \<rightharpoonup> string) answer"
  fetchClock :: string

record 'n indexWorld =
  indexAnswer :: "'n indexBody answer"
  indexClock :: string

text \<open>The object built by the \<open>catch\<close> clause of \<open>fetchStockData\<close>.\<close>

definition failedFetch :: "string \<Rightarrow> jsError \<Rightarrow> string \<Rightarrow> rawStock" where
  "failedFetch symbol e now =
     \<lparr> rs_symbol = symbol, rs_timeSeries = None, rs_overview = None,
       rs_error = Some (message e), rs_extractedAt = now \<rparr>"

text \<open>
  \<open>fetchStockData\<close>: the whole body is inside \<open>try\<close>, so every rejection and every throw
  ends in the \<open>catch\<close> clause. The wait of 1500 ms before the \<open>return\<close> changes no value.
\<close>

definition fetchStockData :: "fetchWorld \<Rightarrow> string \<Rightarrow> rawStock" where
  "fetchStockData w symbol =
     (case seriesAnswer w of
        Inl e \<Rightarrow> failedFetch symbol e (fetchClock w)
      | Inr None \<Rightarrow>
          failedFetch symbol (TypeError ''Cannot read properties of null'') (fetchClock w)
      | Inr (Some body) \<Rightarrow>
          if truthy (errorMessage body) then
            failedFetch symbol
              (ErrorObj (''Alpha Vantage API error for '' @ symbol @ '': ''
                         @ (case errorMessage body of None \<Rightarrow> [] | Some m \<Rightarrow> m)))
              (fetchClock w)
          else
            (case overviewAnswer w of
               Inl e \<Rightarrow> failedFetch symbol e (fetchClock w)
             | Inr ov \<Rightarrow>
                 \<lparr> rs_symbol = symbol,
                   rs_timeSeries = Some (case timeSeriesDaily body of None \<Rightarrow> [] | Some ts \<Rightarrow> ts),
                   rs_overview = Some (case ov of None \<Rightarrow> Map.empty | Some m \<Rightarrow> m),
                   rs_error = None,
                   rs_extractedAt = fetchClock w \<rparr>))"

text \<open>\<open>fetchMarketIndexData\<close>\<close>

definition fetchMarketIndexData :: "'n indexWorld \<Rightarrow> 'n rawMarket" where
  "fetchMarketIndexData w =
     (case indexAnswer w of
        Inl e \<Rightarrow> \<lparr> rm_index = ''S&P500'', rm_historical = None,
                   rm_error = Some (message e), rm_extractedAt = indexClock w \<rparr>
      | Inr None \<Rightarrow> \<lparr> rm_index = ''S&P500'', rm_historical = None,
                      rm_error = Some ''Failed to fetch S&P 500 data'',
                      rm_extractedAt = indexClock w \<rparr>
      | Inr (Some body) \<Rightarrow>
          (case historical body of
             None \<Rightarrow> \<lparr> rm_index = ''S&P500'', rm_historical = None,
                        rm_error = Some ''Failed to fetch S&P 500 data'',
                        rm_extractedAt = indexClock w \<rparr>
           | Some hs \<Rightarrow> \<lparr> rm_index = ''S&P500'', rm_historical = Some hs,
                           rm_error = None, rm_extractedAt = indexClock w \<rparr>))"

text \<open>
  \<open>saveRawData\<close>: the outcome of creating the directory and writing the file is the
  world's; a failure is caught and \<open>null\<close> is returned instead of the path.
\<close>

definition saveRawData :: "jsError + string \<Rightarrow> string option" where
  "saveRawData written = (case written of Inl e \<Rightarrow> None | Inr filePath \<Rightarrow> Some filePath)"

record 'n extractedData =
  stockData :: "rawStock list"
  marketData :: "'n rawMarket option"
  extractionTimestamp :: string

text \<open>
  \<open>extract\<close> (named \<open>extractAll\<close> here, \<open>extract\<close> being a command of Isabelle).
  \<open>STOCKS_TO_TRACK.map(symbol => fetchStockData(symbol))\<close> followed by
  \<open>Promise.all\<close> gives the results in the order of the symbols; the i-th fetch lives in
  the world \<open>ws i\<close>. No promise of the array rejects, as \<open>fetchStockData\<close> catches
  everything. The saved file path is only logged.
\<close>

definition extractAll :: "(nat \<Rightarrow> fetchWorld) \<Rightarrow> 'n indexWorld \<Rightarrow> jsError + string \<Rightarrow> string
    \<Rightarrow> string list \<Rightarrow> 'n extractedData" where
  "extractAll ws iw written now STOCKS_TO_TRACK =
     (let stockData' = map (\<lambda>i. fetchStockData (ws i) (STOCKS_TO_TRACK ! i))
                           [0..<length STOCKS_TO_TRACK];
          marketData' = fetchMarketIndexData iw;
          extractedData = \<lparr> stockData = stockData', marketData = Some marketData',
                            extractionTimestamp = now \<rparr>;
          savedFilePath = saveRawData written
      in extractedData)"

text \<open>The default of \<open>STOCKS_TO_TRACK\<close>.\<close>

definition defaultStocks :: "string list" where
  "defaultStocks = [''AAPL'', ''MSFT'', ''GOOGL'', ''AMZN'']"

subsection \<open>The order of the requests\<close>

text \<open>
  The events of an extraction that the outside can see. An \<open>async\<close> function runs on call
  up to its first \<open>await\<close> and is resumed, one step at a time, when what it awaits has
  settled. A fetch is therefore a task with a stage: awaiting the series, awaiting the
  overview, awaiting the timer, done. \<open>startFetch\<close> is the part run by the call itself: it
  sends the series request. \<open>resumeFetch\<close> is the step taken when the awaited promise
  settles.
\<close>

datatype event =
    SeriesRequested string
  | OverviewRequested string
  | DelayStarted string
  | Returned string

datatype stage = AwaitSeries | AwaitOverview | AwaitDelay | Done

definition seriesFails :: "fetchWorld \<Rightarrow> bool" where
  "seriesFails w =
     (case seriesAnswer w of
        Inl e \<Rightarrow> True
      | Inr None \<Rightarrow> True
      | Inr (Some body) \<Rightarrow> truthy (errorMessage body))"

definition overviewFails :: "fetchWorld \<Rightarrow> bool" where
  "overviewFails w = (case overviewAnswer w of Inl e \<Rightarrow> True | Inr ov \<Rightarrow> False)"

definition startFetch :: "string \<Rightarrow> event list \<times> stage" where
  "startFetch symbol = ([SeriesRequested symbol], AwaitSeries)"

fun resumeFetch :: "fetchWorld \<Rightarrow> string \<Rightarrow> stage \<Rightarrow> event list \<times> stage" where
  "resumeFetch w symbol AwaitSeries =
     (if seriesFails w then ([Returned symbol], Done)
      else ([OverviewRequested symbol], AwaitOverview))"
| "resumeFetch w symbol AwaitOverview =
     (if overviewFails w then ([Returned symbol], Done)
      else ([DelayStarted symbol], AwaitDelay))"
| "resumeFetch w symbol AwaitDelay = ([Returned symbol], Done)"
| "resumeFetch w symbol Done = ([], Done)"

text \<open>
  The calls of \<open>map\<close> run one after the other, each up to its first \<open>await\<close>; then
  \<open>Promise.all\<close> waits, and the tasks are resumed in the order in which their promises
  settle, the \<open>schedule\<close>, which is the world's: a list of task indices.
\<close>

fun resumeAll :: "(nat \<Rightarrow> fetchWorld) \<Rightarrow> string list \<Rightarrow> nat list \<Rightarrow> stage list \<Rightarrow> event list" where
  "resumeAll ws symbols [] stages = []"
| "resumeAll ws symbols (i # schedule) stages =
     (if i < length stages then
        (let (es, st) = resumeFetch (ws i) (symbols ! i) (stages ! i)
         in es @ resumeAll ws symbols schedule (stages[i := st]))
      else resumeAll ws symbols schedule stages)"

definition extractEvents :: "(nat \<Rightarrow> fetchWorld) \<Rightarrow> nat list \<Rightarrow> string list \<Rightarrow> event list" where
  "extractEvents ws schedule symbols =
     concat (map (\<lambda>s. fst (startFetch s)) symbols)
     @ resumeAll ws symbols schedule (map (\<lambda>s. snd (startFetch s)) symbols)"


section \<open>The whole transformation (transform.js, \<open>transform\<close>)\<close>

record 'n transformedData =
  td_stockMetrics :: "'n stockMetrics list"
  td_marketIndicators :: "'n marketIndicators option"
  td_transformationTimestamp :: string

text \<open>\<open>xs.map(f)\<close> with a callback that may throw: the first throw leaves the loop.\<close>

fun mapThrow :: "('a \<Rightarrow> jsError + 'b) \<Rightarrow> 'a list \<Rightarrow> jsError + 'b list" where
  "mapThrow f [] = Inr []"
| "mapThrow f (x # xs) =
     (case f x of
        Inl e \<Rightarrow> Inl e
      | Inr y \<Rightarrow> (case mapThrow f xs of Inl e \<Rightarrow> Inl e | Inr ys \<Rightarrow> Inr (y # ys)))"

text \<open>
  \<open>transform\<close>. \<open>clock i\<close> is the reading of the clock by the i-th call of
  \<open>calculateStockMetrics\<close>, and the two readings after the last one are those of
  \<open>calculateMarketIndicators\<close> and of \<open>transformationTimestamp\<close>.
\<close>

definition transform :: "'n numOps \<Rightarrow> (string \<Rightarrow> int) \<Rightarrow> (nat \<Rightarrow> string) \<Rightarrow> 'n extractedData
    \<Rightarrow> jsError + 'n transformedData" where
  "transform ops tv clock extractedData =
     (case mapThrow (\<lambda>(i, stock). calculateStockMetrics ops tv (clock i) stock)
             (zip [0..<length (stockData extractedData)] (stockData extractedData)) of
        Inl e \<Rightarrow> Inl e
      | Inr stockMetrics' \<Rightarrow>
          (case (case marketData extractedData of
                   None \<Rightarrow> Inr None
                 | Some md \<Rightarrow>
                     map_sum id Some
                       (calculateMarketIndicators ops tv
                          (clock (length (stockData extractedData))) md)) of
             Inl e \<Rightarrow> Inl e
           | Inr marketIndicators' \<Rightarrow>
               Inr \<lparr> td_stockMetrics = stockMetrics',
                     td_marketIndicators = marketIndicators',
                     td_transformationTimestamp =
                       clock (length (stockData extractedData) + 1) \<rparr>))"

section \<open>Loader (load.js)\<close>

text \<open>
  The rows sent to the two tables: the columns of the migration, those of one block of the
  metrics record kept together. \<open>sr_date\<close> is \<open>None\<close> when the record has no \<open>date\<close>.
\<close>

record 'n stockRow =
  sr_symbol :: string
  sr_date :: "string option"
  sr_price :: "'n price"
  sr_priceChanges :: "'n priceChanges"
  sr_volatility_30d :: "'n option"
  sr_fundamentals :: "'n fundamentals"
  sr_processed_at :: string

record 'n marketRow =
  mr_index_name :: string
  mr_date :: "string option"
  mr_price :: "'n price"
  mr_priceChanges :: "'n priceChanges"
  mr_volatility_30d :: "'n option"
  mr_processed_at :: string

text \<open>
  The storage is reached through \<open>supabase.from(table).insert([row])\<close>. Its outcome is the
  sink's: \<open>None\<close> when the row is written, \<open>Some e\<close> when the call resolves with an
  \<open>error\<close> or rejects (the code throws the former and both end in the same \<open>catch\<close>);
  the sink also returns the new state of the storage.
\<close>

type_synonym ('db, 'row) sink = "'db \<Rightarrow> 'row \<Rightarrow> jsError option \<times> 'db"

text \<open>
  Building the row reads \<open>stock.price.open\<close>, ..., \<open>stock.fundamentals.dilutedEPS\<close>:
  reading a property of an absent block throws a TypeError.
\<close>

definition stockRowOf :: "'n stockMetrics \<Rightarrow> jsError + 'n stockRow" where
  "stockRowOf stock =
     (case sm_price stock of
        None \<Rightarrow> Inl (TypeError ''Cannot read properties of undefined'')
      | Some p \<Rightarrow>
     (case sm_priceChanges stock of
        None \<Rightarrow> Inl (TypeError ''Cannot read properties of undefined'')
      | Some pc \<Rightarrow>
     (case sm_volatility stock of
        None \<Rightarrow> Inl (TypeError ''Cannot read properties of undefined'')
      | Some v \<Rightarrow>
     (case sm_fundamentals stock of
        None \<Rightarrow> Inl (TypeError ''Cannot read properties of undefined'')
      | Some f \<Rightarrow>
          Inr \<lparr> sr_symbol = sm_symbol stock, sr_date = sm_date stock, sr_price = p,
                sr_priceChanges = pc, sr_volatility_30d = volatility30d v,
                sr_fundamentals = f, sr_processed_at = sm_transformedAt stock \<rparr>))))"

definition marketRowOf :: "'n marketIndicators \<Rightarrow> jsError + 'n marketRow" where
  "marketRowOf mi =
     (case mi_price mi of
        None \<Rightarrow> Inl (TypeError ''Cannot read properties of undefined'')
      | Some p \<Rightarrow>
     (case mi_priceChanges mi of
        None \<Rightarrow> Inl (TypeError ''Cannot read properties of undefined'')
      | Some pc \<Rightarrow>
     (case mi_volatility mi of
        None \<Rightarrow> Inl (TypeError ''Cannot read properties of undefined'')
      | Some v \<Rightarrow>
          Inr \<lparr> mr_index_name = mi_index mi, mr_date = mi_date mi, mr_price = p,
                mr_priceChanges = pc, mr_volatility_30d = volatility30d v,
                mr_processed_at = mi_transformedAt mi \<rparr>)))"

text \<open>
  \<open>results\<close> of \<open>loadStockMetrics\<close>: the entries \<open>{symbol, date}\<close> of \<open>success\<close> and
  \<open>{symbol, error}\<close> of \<open>errors\<close>, in the order pushed.
\<close>

record loadResults =
  lr_success :: "(string \<times> string option) list"
  lr_errors :: "(string \<times> string option) list"

text \<open>The \<open>for ... of\<close> loop of \<open>loadStockMetrics\<close>, one equation per turn.\<close>

fun loadStockLoop :: "('db, 'n stockRow) sink \<Rightarrow> 'n stockMetrics list \<Rightarrow> loadResults \<Rightarrow> 'db
    \<Rightarrow> loadResults \<times> 'db" where
  "loadStockLoop ins [] results db = (results, db)"
| "loadStockLoop ins (stock # rest) results db =
     (if truthy (sm_error stock) then
        loadStockLoop ins rest
          (results\<lparr> lr_errors := lr_errors results @ [(sm_symbol stock, sm_error stock)] \<rparr>) db
      else
        (case stockRowOf stock of
           Inl e \<Rightarrow>
             loadStockLoop ins rest
               (results\<lparr> lr_errors := lr_errors results @ [(sm_symbol stock, Some (message e))] \<rparr>)
               db
         | Inr row \<Rightarrow>
             (case ins db row of
                (Some e, db') \<Rightarrow>
                  loadStockLoop ins rest
                    (results\<lparr> lr_errors :=
                                lr_errors results @ [(sm_symbol stock, Some (message e))] \<rparr>)
                    db'
              | (None, db') \<Rightarrow>
                  loadStockLoop ins rest
                    (results\<lparr> lr_success :=
                                lr_success results @ [(sm_symbol stock, sm_date stock)] \<rparr>)
                    db')))"

definition loadStockMetrics :: "('db, 'n stockRow) sink \<Rightarrow> 'db \<Rightarrow> 'n stockMetrics list
    \<Rightarrow> loadResults \<times> 'db" where
  "loadStockMetrics ins db stockMetrics' =
     loadStockLoop ins stockMetrics' \<lparr> lr_success = [], lr_errors = [] \<rparr> db"

record marketResult =
  mk_success :: bool
  mk_index :: "string option"
  mk_date :: "string option"
  mk_error :: "string option"

definition loadMarketIndicators :: "('db, 'n marketRow) sink \<Rightarrow> 'db
    \<Rightarrow> 'n marketIndicators option \<Rightarrow> marketResult \<times> 'db" where
  "loadMarketIndicators ins db marketIndicators' =
     (case marketIndicators' of
        None \<Rightarrow> (\<lparr> mk_success = False, mk_index = None, mk_date = None,
                     mk_error = Some ''No market indicators provided'' \<rparr>, db)
      | Some mi \<Rightarrow>
          if truthy (mi_error mi) then
            (\<lparr> mk_success = False, mk_index = None, mk_date = None, mk_error = mi_error mi \<rparr>, db)
          else
            (case marketRowOf mi of
               Inl e \<Rightarrow> (\<lparr> mk_success = False, mk_index = Some (mi_index mi), mk_date = None,
                            mk_error = Some (message e) \<rparr>, db)
             | Inr row \<Rightarrow>
                 (case ins db row of
                    (Some e, db') \<Rightarrow>
                      (\<lparr> mk_success = False, mk_index = Some (mi_index mi), mk_date = None,
                         mk_error = Some (message e) \<rparr>, db')
                  | (None, db') \<Rightarrow>
                      (\<lparr> mk_success = True, mk_index = Some (mi_index mi), mk_date = mi_date mi,
                         mk_error = None \<rparr>, db'))))"

record loadResult =
  stocksLoaded :: nat
  stockErrors :: nat
  indicatorsLoaded :: nat
  indicatorErrors :: nat
  timestamp :: string

text \<open>\<open>load\<close>\<close>

definition load :: "('db, 'n stockRow) sink \<Rightarrow> ('db, 'n marketRow) sink \<Rightarrow> string \<Rightarrow> 'db
    \<Rightarrow> 'n transformedData \<Rightarrow> loadResult \<times> 'db" where
  "load insStock insMarket now db transformedData =
     (let (stockResults, db1) = loadStockMetrics insStock db (td_stockMetrics transformedData);
          (marketResult, db2) =
             (case td_marketIndicators transformedData of
                Some mi \<Rightarrow> loadMarketIndicators insMarket db1 (Some mi)
              | None \<Rightarrow> (\<lparr> mk_success = False, mk_index = None, mk_date = None,
                             mk_error = Some ''No market indicators provided'' \<rparr>, db1))
      in (\<lparr> stocksLoaded = length (lr_success stockResults),
             stockErrors = length (lr_errors stockResults),
             indicatorsLoaded = (if mk_success marketResult then 1 else 0),
             indicatorErrors = (if mk_success marketResult then 0 else 1),
             timestamp = now \<rparr>, db2))"

subsection \<open>The tables of the migration\<close>

text \<open>
  The storage as the migration declares it: the rows of \<open>stock_metrics\<close> and of
  \<open>market_indicators\<close>. An insert is refused when \<open>date\<close> is null (\<open>date date NOT NULL\<close>)
  and when a row with the same \<open>(symbol, date)\<close>, or \<open>(index_name, date)\<close>, is there
  already (\<open>UNIQUE(symbol, date)\<close>, \<open>UNIQUE(index_name, date)\<close>); otherwise the row is
  added. A refused insert leaves the table as it was.
\<close>

record 'n tables =
  stock_metrics :: "'n stockRow list"
  market_indicators :: "'n marketRow list"

definition insertStockRow :: "('n tables, 'n stockRow) sink" where
  "insertStockRow db row =
     (if sr_date row = None then
        (Some (ErrorObj ''null value in column date violates not-null constraint''), db)
      else if (sr_symbol row, sr_date row)
                \<in> set (map (\<lambda>r. (sr_symbol r, sr_date r)) (stock_metrics db)) then
        (Some (ErrorObj ''duplicate key value violates unique constraint stock_metrics_symbol_date_key''),
         db)
      else (None, db\<lparr> stock_metrics := stock_metrics db @ [row] \<rparr>))"

definition insertMarketRow :: "('n tables, 'n marketRow) sink" where
  "insertMarketRow db row =
     (if mr_date row = None then
        (Some (ErrorObj ''null value in column date violates not-null constraint''), db)
      else if (mr_index_name row, mr_date row)
                \<in> set (map (\<lambda>r. (mr_index_name r, mr_date r)) (market_indicators db)) then
        (Some (ErrorObj ''duplicate key value violates unique constraint market_indicators_index_name_date_key''),
         db)
      else (None, db\<lparr> market_indicators := market_indicators db @ [row] \<rparr>))"


section \<open>Orchestrator (index.js)\<close>

text \<open>
  How a call can end: it returns a value, it throws (for an \<open>async\<close> function: its promise
  rejects), or it ends the process with an exit code (\<open>process.exit\<close>).
\<close>

datatype 'a outcome = Returns 'a | Throws jsError | Exits nat

record pipelineResult =
  pr_success :: bool
  pr_message :: "string option"
  pr_error :: "string option"

text \<open>
  \<open>runETLPipeline\<close>. The three stages are parameters: the outcome of \<open>extract()\<close>, and
  \<open>transform\<close> and \<open>load\<close> as functions of the value handed to them; each may throw.
  All three calls are inside \<open>try\<close>, and the body calls \<open>process.exit\<close> nowhere.
\<close>

definition runETLPipeline :: "jsError + 'a \<Rightarrow> ('a \<Rightarrow> jsError + 'b) \<Rightarrow> ('b \<Rightarrow> jsError + 'c)
    \<Rightarrow> pipelineResult outcome" where
  "runETLPipeline extracted transform' load' =
     (case extracted of
        Inl error \<Rightarrow>
          Returns \<lparr> pr_success = False, pr_message = None, pr_error = Some (message error) \<rparr>
      | Inr rawData \<Rightarrow>
     (case transform' rawData of
        Inl error \<Rightarrow>
          Returns \<lparr> pr_success = False, pr_message = None, pr_error = Some (message error) \<rparr>
      | Inr transformedData \<Rightarrow>
     (case load' transformedData of
        Inl error \<Rightarrow>
          Returns \<lparr> pr_success = False, pr_message = None, pr_error = Some (message error) \<rparr>
      | Inr result \<Rightarrow>
          Returns \<lparr> pr_success = True,
                    pr_message = Some ''ETL pipeline completed successfully'',
                    pr_error = None \<rparr>)))"


section \<open>Vocabulary of the specification\<close>

text \<open>
  The bars of an equity in date-descending order: the entries of \<open>timeSeries\<close> sorted
  by date, and their closing prices as numbers.
\<close>

definition sortedBars :: "(string \<Rightarrow> int) \<Rightarrow> timeSeries \<Rightarrow> bar list" where
  "sortedBars tv ts = map snd (sortDesc tv fst ts)"

definition stockCloses :: "'n numOps \<Rightarrow> (string \<Rightarrow> int) \<Rightarrow> timeSeries \<Rightarrow> 'n list" where
  "stockCloses ops tv ts = map (\<lambda>b. parseFloat ops (b_close b)) (sortedBars tv ts)"

definition marketCloses :: "(string \<Rightarrow> int) \<Rightarrow> 'n hbar list \<Rightarrow> 'n list" where
  "marketCloses tv hs = map h_close (sortDesc tv h_date hs)"

text \<open>
  The specification's return sequence: \<open>(close[i] - close[i+1]) / close[i+1]\<close> for
  \<open>i = 0..29\<close>.
\<close>

definition simpleReturns :: "'n numOps \<Rightarrow> 'n list \<Rightarrow> 'n list" where
  "simpleReturns ops closes =
     map (\<lambda>i. n_div ops (n_sub ops (closes ! i) (closes ! (i + 1))) (closes ! (i + 1))) [0..<30]"

text \<open>
  The specification's population standard deviation, in words of its own: the sum of a
  sequence adds its elements one by one, from the first to the last, starting from zero;
  the mean is the sum divided by the count; the deviation of an element is its difference
  from the mean, squared; the standard deviation is the square root of the sum of the
  squared deviations divided by the count (not the count minus one).
\<close>

fun sumOnto :: "'n numOps \<Rightarrow> 'n \<Rightarrow> 'n list \<Rightarrow> 'n" where
  "sumOnto ops acc [] = acc"
| "sumOnto ops acc (x # xs) = sumOnto ops (n_add ops acc x) xs"

definition sumOf :: "'n numOps \<Rightarrow> 'n list \<Rightarrow> 'n" where
  "sumOf ops xs = sumOnto ops (num ops 0) xs"

definition meanOf :: "'n numOps \<Rightarrow> 'n list \<Rightarrow> 'n" where
  "meanOf ops xs = n_div ops (sumOf ops xs) (num ops (length xs))"

definition squaredDeviation :: "'n numOps \<Rightarrow> 'n \<Rightarrow> 'n \<Rightarrow> 'n" where
  "squaredDeviation ops mean x = mathPow ops (n_sub ops x mean) (num ops 2)"

definition populationStdev :: "'n numOps \<Rightarrow> 'n list \<Rightarrow> 'n" where
  "populationStdev ops xs =
     mathSqrt ops
       (n_div ops (sumOf ops (map (squaredDeviation ops (meanOf ops xs)) xs))
                  (num ops (length xs)))"

text \<open>
  The k-day fields of a record, read through its optional blocks: a record without the
  block has no such field.
\<close>

definition changeField :: "nat \<Rightarrow> 'n priceChanges option \<Rightarrow> 'n option" where
  "changeField k pcs =
     (case pcs of None \<Rightarrow> None
      | Some pc \<Rightarrow> if k = 7 then change7d pc else if k = 30 then change30d pc
                   else if k = 90 then change90d pc else None)"

definition percentField :: "nat \<Rightarrow> 'n priceChanges option \<Rightarrow> 'n option" where
  "percentField k pcs =
     (case pcs of None \<Rightarrow> None
      | Some pc \<Rightarrow> if k = 7 then percentChange7d pc else if k = 30 then percentChange30d pc
                   else if k = 90 then percentChange90d pc else None)"

definition volatilityField :: "'n volatility option \<Rightarrow> 'n option" where
  "volatilityField vs = (case vs of None \<Rightarrow> None | Some v \<Rightarrow> volatility30d v)"

text \<open>
  A degenerate metrics record: an error message, and no date, price, price-change,
  volatility or fundamentals block.
\<close>

definition degenerateStock :: "'n stockMetrics \<Rightarrow> bool" where
  "degenerateStock m \<longleftrightarrow>
     truthy (sm_error m) \<and> sm_date m = None \<and> sm_price m = None \<and> sm_priceChanges m = None
     \<and> sm_volatility m = None \<and> sm_fundamentals m = None"

definition degenerateMarket :: "'n marketIndicators \<Rightarrow> bool" where
  "degenerateMarket m \<longleftrightarrow>
     truthy (mi_error m) \<and> mi_date m = None \<and> mi_price m = None \<and> mi_priceChanges m = None
     \<and> mi_volatility m = None"

text \<open>
  The specification's rule for a ratio: the decimal parse of the input string when the
  field is present and non-empty, null otherwise; and the same rescaled by 100.
\<close>

definition decimalOrNull :: "'n numOps \<Rightarrow> string option \<Rightarrow> 'n option" where
  "decimalOrNull ops v =
     (case v of None \<Rightarrow> None
      | Some s \<Rightarrow> if s = [] then None else Some (parseFloat ops s))"

definition percentOrNull :: "'n numOps \<Rightarrow> string option \<Rightarrow> 'n option" where
  "percentOrNull ops v =
     (case v of None \<Rightarrow> None
      | Some s \<Rightarrow> if s = [] then None else Some (n_mul ops (parseFloat ops s) (num ops 100)))"

section \<open>Concrete inputs\<close>

text \<open>
  An interpretation of the Number operations by exact real arithmetic, with
  \<open>parseFloat\<close> and \<open>parseInt\<close> reading an unsigned digit string and \<open>Math.pow\<close> taking a
  natural exponent; the time value of an ISO date \<open>YYYY-MM-DD\<close> as the number
  \<open>YYYYMMDD\<close>, which orders such dates as the calendar does. They serve to evaluate the
  functions on examples.
\<close>

definition digitsValue :: "string \<Rightarrow> nat" where
  "digitsValue s = foldl (\<lambda>a c. 10 * a + (of_char c - 48)) 0 s"

definition realOps :: "real numOps" where
  "realOps = \<lparr> parseFloat = (\<lambda>s. real (digitsValue s)),
               parseInt10 = (\<lambda>s. real (digitsValue s)),
               num = real,
               n_add = (+), n_sub = (-), n_mul = (*), n_div = (/),
               mathSqrt = sqrt,
               mathPow = (\<lambda>x y. x ^ nat \<lfloor>y\<rfloor>) \<rparr>"

definition isoValue :: "string \<Rightarrow> int" where
  "isoValue s = int (digitsValue (filter (\<lambda>c. c \<noteq> CHR ''-'') s))"

definition twoDigits :: "nat \<Rightarrow> string" where
  "twoDigits i = [char_of (48 + i div 10), char_of (48 + i mod 10)]"

text \<open>
  \<open>sampleSeries n\<close>: the bars of the days 1 to \<open>n\<close> of January 2023, in ascending order,
  the close of day \<open>i\<close> being \<open>100 + i\<close>; \<open>sampleStock n\<close> the raw record holding them.
\<close>

definition sampleBar :: "nat \<Rightarrow> string \<times> bar" where
  "sampleBar i = (''2023-01-'' @ twoDigits i,
                  \<lparr> b_open = ''100'', b_high = ''1'' @ twoDigits (i + 5), b_low = ''99'',
                    b_close = ''1'' @ twoDigits i, b_volume = ''1000000'' \<rparr>)"

definition sampleSeries :: "nat \<Rightarrow> timeSeries" where
  "sampleSeries n = map sampleBar [1..<Suc n]"

definition sampleOverview :: "string \<rightharpoonup> string" where
  "sampleOverview = [''MarketCapitalization'' \<mapsto> ''1000000000'', ''PERatio'' \<mapsto> ''20'',
                     ''DividendYield'' \<mapsto> ''2'', ''EPS'' \<mapsto> [] ]"

definition sampleStock :: "nat \<Rightarrow> rawStock" where
  "sampleStock n = \<lparr> rs_symbol = ''SAMPLE'', rs_timeSeries = Some (sampleSeries n),
                     rs_overview = Some sampleOverview, rs_error = None,
                     rs_extractedAt = ''2023-02-01T00:00:00.000Z'' \<rparr>"


definition sampleHBar :: "nat \<Rightarrow> real hbar" where
  "sampleHBar i = \<lparr> h_date = ''2023-01-'' @ twoDigits i, h_open = 4000, h_high = 4100,
                    h_low = 3950, h_close = 4000 + real i, h_volume = 10000000 \<rparr>"

definition sampleMarket :: "nat \<Rightarrow> real rawMarket" where
  "sampleMarket n = \<lparr> rm_index = ''S&P500'', rm_historical = Some (map sampleHBar [1..<Suc n]),
                      rm_error = None, rm_extractedAt = ''2023-02-01T00:00:00.000Z'' \<rparr>"

definition failedMarket :: "real rawMarket" where
  "failedMarket = \<lparr> rm_index = ''S&P500'', rm_historical = None,
                    rm_error = Some ''Failed to fetch S&P 500 data'',
                    rm_extractedAt = ''2023-02-01T00:00:00.000Z'' \<rparr>"

section \<open>Vocabulary of the specification: extraction and loading\<close>

text \<open>A fetch fails when one of its two requests does.\<close>

definition fetchFails :: "fetchWorld \<Rightarrow> bool" where
  "fetchFails w \<longleftrightarrow> seriesFails w \<or> overviewFails w"

text \<open>
  The events of one fetch run from its call to its return, and of an extraction that
  awaits each fetch before it calls the next: the sequential extraction of the
  specification.
\<close>

definition fetchEvents :: "fetchWorld \<Rightarrow> string \<Rightarrow> event list" where
  "fetchEvents w symbol =
     (let (e0, s0) = startFetch symbol;
          (e1, s1) = resumeFetch w symbol s0;
          (e2, s2) = resumeFetch w symbol s1;
          (e3, s3) = resumeFetch w symbol s2
      in e0 @ e1 @ e2 @ e3)"

definition sequentialExtractEvents :: "(nat \<Rightarrow> fetchWorld) \<Rightarrow> string list \<Rightarrow> event list" where
  "sequentialExtractEvents ws symbols =
     concat (map (\<lambda>i. fetchEvents (ws i) (symbols ! i)) [0..<length symbols])"

text \<open>
  A sequence of events is sequential when no fetch is started while another one has not
  returned: \<open>inFlight\<close> is the fetch started and not yet returned.
\<close>

fun sequentialFrom :: "string option \<Rightarrow> event list \<Rightarrow> bool" where
  "sequentialFrom inFlight [] = True"
| "sequentialFrom inFlight (SeriesRequested s # es) =
     (inFlight = None \<and> sequentialFrom (Some s) es)"
| "sequentialFrom inFlight (Returned s # es) = sequentialFrom None es"
| "sequentialFrom inFlight (OverviewRequested s # es) = sequentialFrom inFlight es"
| "sequentialFrom inFlight (DelayStarted s # es) = sequentialFrom inFlight es"

definition sequentialEvents :: "event list \<Rightarrow> bool" where
  "sequentialEvents es = sequentialFrom None es"

text \<open>The key of a row of \<open>stock_metrics\<close>, and the rows of a table under a key.\<close>

definition stockKey :: "'n stockRow \<Rightarrow> string \<times> string option" where
  "stockKey r = (sr_symbol r, sr_date r)"

definition rowsFor :: "string \<times> string option \<Rightarrow> 'n tables \<Rightarrow> 'n stockRow list" where
  "rowsFor k db = filter (\<lambda>r. stockKey r = k) (stock_metrics db)"

definition marketKey :: "'n marketRow \<Rightarrow> string \<times> string option" where
  "marketKey r = (mr_index_name r, mr_date r)"

definition marketRowsFor :: "string \<times> string option \<Rightarrow> 'n tables \<Rightarrow> 'n marketRow list" where
  "marketRowsFor k db = filter (\<lambda>r. marketKey r = k) (market_indicators db)"

section \<open>Concrete inputs: extraction and loading\<close>

text \<open>A world in which both requests of a fetch are answered, and one in which the first
  request is rejected.\<close>

definition okWorld :: fetchWorld where
  "okWorld = \<lparr> seriesAnswer = Inr (Some \<lparr> errorMessage = None,
                                           timeSeriesDaily = Some (sampleSeries 31) \<rparr>),
               overviewAnswer = Inr (Some sampleOverview),
               fetchClock = ''2023-02-01T00:00:00.000Z'' \<rparr>"

definition failingWorld :: fetchWorld where
  "failingWorld = \<lparr> seriesAnswer = Inl (ErrorObj ''Network Error''),
                    overviewAnswer = Inr (Some sampleOverview),
                    fetchClock = ''2023-02-01T00:00:00.000Z'' \<rparr>"

definition secondFails :: "nat \<Rightarrow> fetchWorld" where
  "secondFails i = (if i = 1 then failingWorld else okWorld)"

definition sampleIndexWorld :: "real indexWorld" where
  "sampleIndexWorld = \<lparr> indexAnswer = Inr (Some \<lparr> historical = Some [sampleHBar 1] \<rparr>),
                        indexClock = ''2023-02-01T00:00:00.000Z'' \<rparr>"

text \<open>The sample record of load.js, and the empty tables.\<close>

definition sampleMetrics :: "real stockMetrics" where
  "sampleMetrics =
     \<lparr> sm_symbol = ''SAMPLE'', sm_date = Some ''2023-01-01'',
       sm_price = Some \<lparr> p_open = 100, p_high = 105, p_low = 99, p_close = 102,
                         p_volume = 1000000 \<rparr>,
       sm_priceChanges = Some \<lparr> change7d = Some 2, change30d = Some 5, change90d = Some 10,
                                percentChange7d = Some 2, percentChange30d = Some 5,
                                percentChange90d = Some 10 \<rparr>,
       sm_volatility = Some \<lparr> volatility30d = Some 15 \<rparr>,
       sm_fundamentals = Some \<lparr> marketCap = Some 1000000000, peRatio = Some 20,
                                dividendYield = Some 2, eps = Some 5, revenue = Some 10000000,
                                grossProfit = Some 5000000, profitMargin = Some 20,
                                operatingMargin = Some 25, roa = Some 10, roe = Some 15,
                                dilutedEPS = Some (48 / 10) \<rparr>,
       sm_error = None, sm_transformedAt = ''2023-02-01T00:00:02.000Z'' \<rparr>"

definition sampleIndicators :: "real marketIndicators" where
  "sampleIndicators =
     \<lparr> mi_index = ''SAMPLE_INDEX'', mi_date = Some ''2023-01-01'',
       mi_price = Some \<lparr> p_open = 4000, p_high = 4100, p_low = 3950, p_close = 4050,
                         p_volume = 10000000 \<rparr>,
       mi_priceChanges = Some \<lparr> change7d = Some 50, change30d = Some 100,
                                change90d = Some 200, percentChange7d = Some (125 / 100),
                                percentChange30d = Some (25 / 10), percentChange90d = Some 5 \<rparr>,
       mi_volatility = Some \<lparr> volatility30d = Some 12 \<rparr>,
       mi_error = None, mi_transformedAt = ''2023-02-01T00:00:02.000Z'' \<rparr>"

definition emptyTables :: "real tables" where
  "emptyTables = \<lparr> stock_metrics = [], market_indicators = [] \<rparr>"

definition loadedOnce :: "real tables" where
  "loadedOnce = snd (loadStockMetrics insertStockRow emptyTables [sampleMetrics])"


text \<open>
  A world in which the series request is rejected with an error whose message is empty, and
  the pipeline whose single equity lives in it, with the tables of the migration as storage.
\<close>

definition emptyMessageWorld :: fetchWorld where
  "emptyMessageWorld = \<lparr> seriesAnswer = Inl (ErrorObj []),
                         overviewAnswer = Inr (Some sampleOverview),
                         fetchClock = ''2023-02-01T00:00:00.000Z'' \<rparr>"

definition samplePipeline :: "pipelineResult outcome" where
  "samplePipeline =
     runETLPipeline
       (Inr (extractAll (\<lambda>i. emptyMessageWorld) sampleIndexWorld (Inr ''data/raw_data.json'')
               ''2023-02-01T00:00:01.000Z'' [''AAPL'']))
       (transform realOps isoValue (\<lambda>i. ''2023-02-01T00:00:02.000Z''))
       (\<lambda>t. Inr (load insertStockRow insertMarketRow ''2023-02-01T00:00:03.000Z'' emptyTables t))"

text \<open>The world of an index fetch whose request is rejected with an empty message.\<close>

definition emptyMessageIndexWorld :: "'n indexWorld" where
  "emptyMessageIndexWorld = \<lparr> indexAnswer = Inl (ErrorObj []),
                              indexClock = ''2023-02-01T00:00:00.000Z'' \<rparr>"

section \<open>The sort and the loops\<close>

lemma sortDesc_length: "length (sortDesc tv key xs) = length xs"
  by (simp add: sortDesc_def)

lemma sortDesc_set: "set (sortDesc tv key xs) = set xs"
  by (simp add: sortDesc_def)

lemma sortDesc_mset: "mset (sortDesc tv key xs) = mset xs"
  by (simp add: sortDesc_def)

lemma sortDesc_sorted: "sorted_wrt (\<lambda>a b. tv (key b) \<le> tv (key a)) (sortDesc tv key xs)"
proof -
  have "sorted (map (\<lambda>x. - tv (key x)) (sortDesc tv key xs))"
    by (simp add: sortDesc_def)
  then show ?thesis
    by (simp add: sorted_map sorted_wrt_iff_nth_less)
qed

lemma insort_key_map:
  "insort_key f (g x) (map g xs) = map g (insort_key (\<lambda>y. f (g y)) x xs)"
  by (induction xs) auto

lemma sort_key_map: "sort_key f (map g xs) = map g (sort_key (\<lambda>y. f (g y)) xs)"
  by (induction xs) (auto simp: insort_key_map)

lemma sortDesc_keys: "sortDesc tv id (map fst ts) = map fst (sortDesc tv fst ts)"
  by (simp add: sortDesc_def sort_key_map)

lemma sortedBars_length: "length (sortedBars tv ts) = length ts"
  by (simp add: sortedBars_def sortDesc_length)

text \<open>Reading \<open>timeSeries[dates[i]]\<close> yields the i-th bar in date-descending order.\<close>

lemma sorted_key_lookup:
  assumes "distinct (map fst ts)" "i < length ts"
  shows "map_of ts (sortDesc tv id (map fst ts) ! i) = Some (sortedBars tv ts ! i)"
proof -
  let ?es = "sortDesc tv fst ts"
  have len: "i < length ?es" using assms(2) by (simp add: sortDesc_length)
  then have "?es ! i \<in> set ts" using sortDesc_set nth_mem by metis
  then have "map_of ts (fst (?es ! i)) = Some (snd (?es ! i))"
    using assms(1) by simp
  then show ?thesis using len by (simp add: sortDesc_keys sortedBars_def)
qed

text \<open>With more than 30 dates the inner guard never fails: the loop pushes 30 returns.\<close>

lemma stockReturns_all:
  assumes "30 < length dates"
    and "\<And>j. j < length dates \<Longrightarrow> map_of ts (dates ! j) = Some (bars ! j)"
    and "i \<le> 30"
  shows "stockReturns ops ts dates i acc =
     Inr (acc @ map (\<lambda>j. n_div ops (n_sub ops (parseFloat ops (b_close (bars ! j)))
                                         (parseFloat ops (b_close (bars ! (j + 1)))))
                             (parseFloat ops (b_close (bars ! (j + 1))))) [i..<30])"
  using assms(3)
proof (induction "30 - i" arbitrary: i acc)
  case 0
  then have "i = 30" by simp
  then show ?case by (simp add: stockReturns.simps)
next
  case (Suc d)
  then have lt: "i < 30" by simp
  then have g: "i + 1 < length dates" "i < length dates" using assms(1) by simp_all
  have step: "stockReturns ops ts dates i acc =
     stockReturns ops ts dates (i + 1)
       (acc @ [n_div ops (n_sub ops (parseFloat ops (b_close (bars ! i)))
                                    (parseFloat ops (b_close (bars ! (i + 1)))))
                         (parseFloat ops (b_close (bars ! (i + 1))))])"
    using lt g assms(2)[of i] assms(2)[of "i + 1"]
    by (subst stockReturns.simps) (simp add: Let_def)
  have "d = 30 - (i + 1)" using Suc.hyps(2) by simp
  moreover have "i + 1 \<le> 30" using lt by simp
  ultimately show ?case
    using Suc.hyps(1)[of "i + 1"] lt by (simp add: step upt_conv_Cons)
qed

lemma stockReturns_simple:
  assumes "distinct (map fst ts)" "30 < length ts"
  shows "stockReturns ops ts (sortDesc tv id (map fst ts)) 0 [] =
           Inr (simpleReturns ops (stockCloses ops tv ts))"
proof -
  let ?dates = "sortDesc tv id (map fst ts)"
  have len: "30 < length ?dates" using assms(2) by (simp add: sortDesc_length)
  have look: "\<And>j. j < length ?dates \<Longrightarrow> map_of ts (?dates ! j) = Some (sortedBars tv ts ! j)"
    using assms(1) by (simp add: sortDesc_length sorted_key_lookup)
  have "\<And>j. j \<in> set [0..<30] \<Longrightarrow> j < length (sortedBars tv ts) \<and> j + 1 < length (sortedBars tv ts)"
    using assms(2) by (simp add: sortedBars_length)
  then have "simpleReturns ops (stockCloses ops tv ts) =
     map (\<lambda>j. n_div ops (n_sub ops (parseFloat ops (b_close (sortedBars tv ts ! j)))
                                  (parseFloat ops (b_close (sortedBars tv ts ! (j + 1)))))
                       (parseFloat ops (b_close (sortedBars tv ts ! (j + 1))))) [0..<30]"
    unfolding simpleReturns_def stockCloses_def by (intro map_cong) simp_all
  then show ?thesis
    using stockReturns_all[of ?dates ts "sortedBars tv ts" 0 ops "[]", OF len look] by simp
qed

lemma marketReturns_all:
  assumes "30 < length sd" and "i \<le> 30"
  shows "marketReturns ops sd i acc =
     acc @ map (\<lambda>j. n_div ops (n_sub ops (h_close (sd ! j)) (h_close (sd ! (j + 1))))
                             (h_close (sd ! (j + 1)))) [i..<30]"
  using assms(2)
proof (induction "30 - i" arbitrary: i acc)
  case 0
  then have "i = 30" by simp
  then show ?case by (simp add: marketReturns.simps)
next
  case (Suc d)
  then have lt: "i < 30" by simp
  then have g: "i + 1 < length sd" using assms(1) by simp
  have step: "marketReturns ops sd i acc =
     marketReturns ops sd (i + 1)
       (acc @ [n_div ops (n_sub ops (h_close (sd ! i)) (h_close (sd ! (i + 1))))
                         (h_close (sd ! (i + 1)))])"
    using lt g by (subst marketReturns.simps) (simp add: Let_def)
  have "d = 30 - (i + 1)" using Suc.hyps(2) by simp
  moreover have "i + 1 \<le> 30" using lt by simp
  ultimately show ?case
    using Suc.hyps(1)[of "i + 1"] lt by (simp add: step upt_conv_Cons)
qed

lemma marketReturns_simple:
  assumes "30 < length hs"
  shows "marketReturns ops (sortDesc tv h_date hs) 0 [] = simpleReturns ops (marketCloses tv hs)"
proof -
  let ?sd = "sortDesc tv h_date hs"
  have len: "30 < length ?sd" using assms by (simp add: sortDesc_length)
  have "\<And>j. j \<in> set [0..<30] \<Longrightarrow> j < length ?sd \<and> j + 1 < length ?sd"
    using len by simp
  then have "simpleReturns ops (marketCloses tv hs) =
     map (\<lambda>j. n_div ops (n_sub ops (h_close (?sd ! j)) (h_close (?sd ! (j + 1))))
                       (h_close (?sd ! (j + 1)))) [0..<30]"
    unfolding simpleReturns_def marketCloses_def by (intro map_cong) simp_all
  then show ?thesis
    using marketReturns_all[of ?sd 0 ops "[]", OF len] by simp
qed

lemma simpleReturns_length: "length (simpleReturns ops closes) = 30"
  by (simp add: simpleReturns_def)

text \<open>The \<open>reduce\<close> of the code computes the sum of the specification.\<close>

lemma foldl_sumOnto: "foldl (n_add ops) acc xs = sumOnto ops acc xs"
  by (induction xs arbitrary: acc) simp_all

lemma reduceSum_sumOf: "reduceSum ops xs = sumOf ops xs"
  by (simp add: reduceSum_def sumOf_def foldl_sumOnto)

lemma annualize_stdev:
  "annualize ops xs =
     n_mul ops (n_mul ops (populationStdev ops xs) (mathSqrt ops (num ops 252))) (num ops 100)"
  by (simp add: annualize_def populationStdev_def meanOf_def reduceSum_sumOf
        squaredDeviation_def[abs_def] Let_def)

lemma ratio_decimalOrNull: "ratio ops ov f = decimalOrNull ops (ov f)"
  by (simp add: ratio_def decimalOrNull_def truthy_def split: option.splits)

lemma ratio100_percentOrNull: "ratio100 ops ov f = percentOrNull ops (ov f)"
  by (simp add: ratio100_def percentOrNull_def truthy_def split: option.splits)

section \<open>The record computed from a series with at least one bar\<close>

lemma stock_full:
  assumes e: "\<not> truthy (rs_error r)" and t: "rs_timeSeries r = Some ts"
    and d: "distinct (map fst ts)" and ne: "ts \<noteq> []" and o: "rs_overview r = Some ov"
  shows "calculateStockMetrics ops tv now r =
    Inr \<lparr> sm_symbol = rs_symbol r,
          sm_date = Some (sortDesc tv id (map fst ts) ! 0),
          sm_price = Some \<lparr> p_open = parseFloat ops (b_open (sortedBars tv ts ! 0)),
                            p_high = parseFloat ops (b_high (sortedBars tv ts ! 0)),
                            p_low = parseFloat ops (b_low (sortedBars tv ts ! 0)),
                            p_close = parseFloat ops (b_close (sortedBars tv ts ! 0)),
                            p_volume = parseInt10 ops (b_volume (sortedBars tv ts ! 0)) \<rparr>,
          sm_priceChanges = Some
            \<lparr> change7d = stockChange ops (parseFloat ops (b_close (sortedBars tv ts ! 0)))
                           (if 7 < length ts then Some (sortedBars tv ts ! 7) else None),
              change30d = stockChange ops (parseFloat ops (b_close (sortedBars tv ts ! 0)))
                           (if 30 < length ts then Some (sortedBars tv ts ! 30) else None),
              change90d = stockChange ops (parseFloat ops (b_close (sortedBars tv ts ! 0)))
                           (if 90 < length ts then Some (sortedBars tv ts ! 90) else None),
              percentChange7d = stockPercent ops
                  (stockChange ops (parseFloat ops (b_close (sortedBars tv ts ! 0)))
                           (if 7 < length ts then Some (sortedBars tv ts ! 7) else None))
                  (if 7 < length ts then Some (sortedBars tv ts ! 7) else None),
              percentChange30d = stockPercent ops
                  (stockChange ops (parseFloat ops (b_close (sortedBars tv ts ! 0)))
                           (if 30 < length ts then Some (sortedBars tv ts ! 30) else None))
                  (if 30 < length ts then Some (sortedBars tv ts ! 30) else None),
              percentChange90d = stockPercent ops
                  (stockChange ops (parseFloat ops (b_close (sortedBars tv ts ! 0)))
                           (if 90 < length ts then Some (sortedBars tv ts ! 90) else None))
                  (if 90 < length ts then Some (sortedBars tv ts ! 90) else None) \<rparr>,
          sm_volatility = Some \<lparr> volatility30d =
              (if 30 < length ts then Some (annualize ops (simpleReturns ops (stockCloses ops tv ts)))
               else None) \<rparr>,
          sm_fundamentals = Some
            \<lparr> marketCap = ratio ops ov ''MarketCapitalization'',
              peRatio = ratio ops ov ''PERatio'',
              dividendYield = ratio100 ops ov ''DividendYield'',
              eps = ratio ops ov ''EPS'',
              revenue = ratio ops ov ''RevenueTTM'',
              grossProfit = ratio ops ov ''GrossProfitTTM'',
              profitMargin = ratio100 ops ov ''ProfitMargin'',
              operatingMargin = ratio100 ops ov ''OperatingMarginTTM'',
              roa = ratio100 ops ov ''ReturnOnAssetsTTM'',
              roe = ratio100 ops ov ''ReturnOnEquityTTM'',
              dilutedEPS = ratio ops ov ''DilutedEPSTTM'' \<rparr>,
          sm_error = None,
          sm_transformedAt = now \<rparr>"
proof -
  let ?dates = "sortDesc tv id (map fst ts)"
  have len: "length ?dates = length ts" by (simp add: sortDesc_length)
  have pos: "0 < length ts" using ne by simp
  have dne: "?dates \<noteq> []" using len pos by (metis length_greater_0_conv)
  have look: "\<And>j. j < length ts \<Longrightarrow> map_of ts (?dates ! j) = Some (sortedBars tv ts ! j)"
    using d by (simp add: sorted_key_lookup)
  have l0: "map_of ts (?dates ! 0) = Some (sortedBars tv ts ! 0)" using look pos by blast
  have l7: "7 < length ts \<Longrightarrow> map_of ts (?dates ! 7) = Some (sortedBars tv ts ! 7)"
    using look by blast
  have l30: "30 < length ts \<Longrightarrow> map_of ts (?dates ! 30) = Some (sortedBars tv ts ! 30)"
    using look by blast
  have l90: "90 < length ts \<Longrightarrow> map_of ts (?dates ! 90) = Some (sortedBars tv ts ! 90)"
    using look by blast
  have vol: "30 < length ts \<Longrightarrow>
      stockReturns ops ts ?dates 0 [] = Inr (simpleReturns ops (stockCloses ops tv ts))"
    using d by (rule stockReturns_simple)
  show ?thesis
    unfolding calculateStockMetrics_def
    using e t o dne by (simp add: len l0 l7 l30 l90 vol Let_def)
qed

lemma stock_empty:
  assumes "\<not> truthy (rs_error r)" and "rs_timeSeries r = Some []"
  shows "calculateStockMetrics ops tv now r =
    Inr \<lparr> sm_symbol = rs_symbol r, sm_date = None, sm_price = None, sm_priceChanges = None,
          sm_volatility = None, sm_fundamentals = None,
          sm_error = Some ''No time series data available'', sm_transformedAt = now \<rparr>"
  using assms by (simp add: calculateStockMetrics_def sortDesc_def)

lemma stock_error:
  assumes "truthy (rs_error r)"
  shows "calculateStockMetrics ops tv now r =
    Inr \<lparr> sm_symbol = rs_symbol r, sm_date = None, sm_price = None, sm_priceChanges = None,
          sm_volatility = None, sm_fundamentals = None,
          sm_error = rs_error r, sm_transformedAt = now \<rparr>"
  using assms by (simp add: calculateStockMetrics_def)

lemma market_full:
  assumes e: "\<not> truthy (rm_error q)" and h: "rm_historical q = Some hs" and ne: "hs \<noteq> []"
  shows "calculateMarketIndicators ops tv now q =
    Inr \<lparr> mi_index = rm_index q,
          mi_date = Some (h_date (sortDesc tv h_date hs ! 0)),
          mi_price = Some \<lparr> p_open = h_open (sortDesc tv h_date hs ! 0),
                            p_high = h_high (sortDesc tv h_date hs ! 0),
                            p_low = h_low (sortDesc tv h_date hs ! 0),
                            p_close = h_close (sortDesc tv h_date hs ! 0),
                            p_volume = h_volume (sortDesc tv h_date hs ! 0) \<rparr>,
          mi_priceChanges = Some
            \<lparr> change7d = marketChange ops (h_close (sortDesc tv h_date hs ! 0))
                           (if 7 < length hs then Some (sortDesc tv h_date hs ! 7) else None),
              change30d = marketChange ops (h_close (sortDesc tv h_date hs ! 0))
                           (if 30 < length hs then Some (sortDesc tv h_date hs ! 30) else None),
              change90d = marketChange ops (h_close (sortDesc tv h_date hs ! 0))
                           (if 90 < length hs then Some (sortDesc tv h_date hs ! 90) else None),
              percentChange7d = marketPercent ops
                  (marketChange ops (h_close (sortDesc tv h_date hs ! 0))
                           (if 7 < length hs then Some (sortDesc tv h_date hs ! 7) else None))
                  (if 7 < length hs then Some (sortDesc tv h_date hs ! 7) else None),
              percentChange30d = marketPercent ops
                  (marketChange ops (h_close (sortDesc tv h_date hs ! 0))
                           (if 30 < length hs then Some (sortDesc tv h_date hs ! 30) else None))
                  (if 30 < length hs then Some (sortDesc tv h_date hs ! 30) else None),
              percentChange90d = marketPercent ops
                  (marketChange ops (h_close (sortDesc tv h_date hs ! 0))
                           (if 90 < length hs then Some (sortDesc tv h_date hs ! 90) else None))
                  (if 90 < length hs then Some (sortDesc tv h_date hs ! 90) else None) \<rparr>,
          mi_volatility = Some \<lparr> volatility30d =
              (if 30 < length hs then Some (annualize ops (simpleReturns ops (marketCloses tv hs)))
               else None) \<rparr>,
          mi_error = None,
          mi_transformedAt = now \<rparr>"
proof -
  let ?sd = "sortDesc tv h_date hs"
  have len: "length ?sd = length hs" by (simp add: sortDesc_length)
  have dne: "?sd \<noteq> []" using len ne by (metis length_0_conv)
  have vol: "30 < length hs \<Longrightarrow> marketReturns ops ?sd 0 [] = simpleReturns ops (marketCloses tv hs)"
    by (rule marketReturns_simple)
  show ?thesis
    unfolding calculateMarketIndicators_def
    using e h dne by (simp add: len vol Let_def)
qed

lemma market_empty:
  assumes "\<not> truthy (rm_error q)" and "rm_historical q = Some []"
  shows "calculateMarketIndicators ops tv now q =
    Inr \<lparr> mi_index = rm_index q, mi_date = None, mi_price = None, mi_priceChanges = None,
          mi_volatility = None,
          mi_error = Some ''No historical data available'', mi_transformedAt = now \<rparr>"
  using assms by (simp add: calculateMarketIndicators_def sortDesc_def)

lemma market_error:
  assumes "truthy (rm_error q)"
  shows "calculateMarketIndicators ops tv now q =
    Inr \<lparr> mi_index = rm_index q, mi_date = None, mi_price = None, mi_priceChanges = None,
          mi_volatility = None, mi_error = rm_error q, mi_transformedAt = now \<rparr>"
  using assms by (simp add: calculateMarketIndicators_def)


section \<open>Lookback changes\<close>

lemma stock_changes:
  assumes "\<not> truthy (rs_error r)" and "rs_timeSeries r = Some ts"
    and "distinct (map fst ts)" and "rs_overview r = Some ov" and "k \<in> {7, 30, 90}"
  shows "\<exists>m. calculateStockMetrics ops tv now r = Inr m \<and>
          (changeField k (sm_priceChanges m) \<noteq> None \<longleftrightarrow> k < length ts) \<and>
          (percentField k (sm_priceChanges m) \<noteq> None \<longleftrightarrow> k < length ts) \<and>
          (k < length ts \<longrightarrow>
             changeField k (sm_priceChanges m) =
               Some (n_sub ops (stockCloses ops tv ts ! 0) (stockCloses ops tv ts ! k)) \<and>
             percentField k (sm_priceChanges m) =
               Some (n_mul ops
                      (n_div ops (n_sub ops (stockCloses ops tv ts ! 0) (stockCloses ops tv ts ! k))
                                 (stockCloses ops tv ts ! k))
                      (num ops 100))) \<and>
          (0 < length ts \<longrightarrow> sm_error m = None \<and> sm_priceChanges m \<noteq> None)"
proof (cases "ts = []")
  case True
  then show ?thesis
    using assms(1,2) by (simp add: stock_empty changeField_def percentField_def)
next
  case False
  have c: "\<And>j. j < length ts \<Longrightarrow>
      stockCloses ops tv ts ! j = parseFloat ops (b_close (sortedBars tv ts ! j))"
    by (simp add: stockCloses_def sortedBars_length)
  have c0: "stockCloses ops tv ts ! 0 = parseFloat ops (b_close (sortedBars tv ts ! 0))"
    using False c by simp
  show ?thesis
    using assms(5) False c c0
    by (auto simp: stock_full[OF assms(1,2,3) False assms(4)] changeField_def percentField_def
          stockChange_def stockPercent_def toNumber_def)
qed

lemma market_changes:
  assumes "\<not> truthy (rm_error q)" and "rm_historical q = Some hs" and "k \<in> {7, 30, 90}"
  shows "\<exists>m. calculateMarketIndicators ops tv now q = Inr m \<and>
          (changeField k (mi_priceChanges m) \<noteq> None \<longleftrightarrow> k < length hs) \<and>
          (percentField k (mi_priceChanges m) \<noteq> None \<longleftrightarrow> k < length hs) \<and>
          (k < length hs \<longrightarrow>
             changeField k (mi_priceChanges m) =
               Some (n_sub ops (marketCloses tv hs ! 0) (marketCloses tv hs ! k)) \<and>
             percentField k (mi_priceChanges m) =
               Some (n_mul ops
                      (n_div ops (n_sub ops (marketCloses tv hs ! 0) (marketCloses tv hs ! k))
                                 (marketCloses tv hs ! k))
                      (num ops 100))) \<and>
          (0 < length hs \<longrightarrow> mi_error m = None \<and> mi_priceChanges m \<noteq> None)"
proof (cases "hs = []")
  case True
  then show ?thesis
    using assms(1,2) by (simp add: market_empty changeField_def percentField_def)
next
  case False
  have c: "\<And>j. j < length hs \<Longrightarrow> marketCloses tv hs ! j = h_close (sortDesc tv h_date hs ! j)"
    by (simp add: marketCloses_def sortDesc_length)
  have c0: "marketCloses tv hs ! 0 = h_close (sortDesc tv h_date hs ! 0)"
    using False c by simp
  show ?thesis
    using assms(3) False c c0
    by (auto simp: market_full[OF assms(1,2) False] changeField_def percentField_def
          marketChange_def marketPercent_def toNumber_def)
qed

lemma sample_distinct: "distinct (map fst (sampleSeries 31))"
  by code_simp

lemma sample_length: "length (sampleSeries n) = n"
  by (simp add: sampleSeries_def)

text \<open>
  C1. For a raw series of n bars that carries no error, and each k of 7, 30 and 90: the
  k-day change and percent change of the record are non-null exactly when n > k; then,
  with \<open>close\<close> the closing prices in date-descending order, the change is
  \<open>close[0] - close[k]\<close> and the percent change is that change divided by \<open>close[k]\<close>,
  times 100; a record computed from at least one bar has the price-change block and no
  error, so that for 0 < n <= k both fields are present and null. The same holds for the
  index. The sorted sequence is a rearrangement of the input in descending date order.
  (For n = 0 the record is the no-data record, which has no price-change block.)
\<close>

theorem C1_lookback_changes:
  assumes "\<not> truthy (rs_error r)" and "rs_timeSeries r = Some ts"
    and "distinct (map fst ts)" and "rs_overview r = Some ov"
    and "\<not> truthy (rm_error q)" and "rm_historical q = Some hs"
    and "k \<in> {7, 30, 90}"
  shows "(\<exists>m. calculateStockMetrics ops tv now r = Inr m \<and>
          (changeField k (sm_priceChanges m) \<noteq> None \<longleftrightarrow> k < length ts) \<and>
          (percentField k (sm_priceChanges m) \<noteq> None \<longleftrightarrow> k < length ts) \<and>
          (k < length ts \<longrightarrow>
             changeField k (sm_priceChanges m) =
               Some (n_sub ops (stockCloses ops tv ts ! 0) (stockCloses ops tv ts ! k)) \<and>
             percentField k (sm_priceChanges m) =
               Some (n_mul ops
                      (n_div ops (n_sub ops (stockCloses ops tv ts ! 0) (stockCloses ops tv ts ! k))
                                 (stockCloses ops tv ts ! k))
                      (num ops 100))) \<and>
          (0 < length ts \<longrightarrow> sm_error m = None \<and> sm_priceChanges m \<noteq> None))
       \<and> (\<exists>m. calculateMarketIndicators ops tv now q = Inr m \<and>
          (changeField k (mi_priceChanges m) \<noteq> None \<longleftrightarrow> k < length hs) \<and>
          (percentField k (mi_priceChanges m) \<noteq> None \<longleftrightarrow> k < length hs) \<and>
          (k < length hs \<longrightarrow>
             changeField k (mi_priceChanges m) =
               Some (n_sub ops (marketCloses tv hs ! 0) (marketCloses tv hs ! k)) \<and>
             percentField k (mi_priceChanges m) =
               Some (n_mul ops
                      (n_div ops (n_sub ops (marketCloses tv hs ! 0) (marketCloses tv hs ! k))
                                 (marketCloses tv hs ! k))
                      (num ops 100))) \<and>
          (0 < length hs \<longrightarrow> mi_error m = None \<and> mi_priceChanges m \<noteq> None))
       \<and> sorted_wrt (\<lambda>a b. tv (fst b) \<le> tv (fst a)) (sortDesc tv fst ts)
       \<and> mset (sortDesc tv fst ts) = mset ts
       \<and> sorted_wrt (\<lambda>a b. tv (h_date b) \<le> tv (h_date a)) (sortDesc tv h_date hs)
       \<and> mset (sortDesc tv h_date hs) = mset hs"
  using stock_changes[OF assms(1,2,3,4,7)] market_changes[OF assms(5,6,7)]
    sortDesc_sorted[of tv fst ts] sortDesc_sorted[of tv h_date hs]
  by (simp only: sortDesc_mset simp_thms)

theorem C1_lookback_changes_witness:
  "(\<exists>m. calculateStockMetrics realOps isoValue ''2023-02-01T00:00:01.000Z'' (sampleStock 31) = Inr m
        \<and> changeField 30 (sm_priceChanges m) \<noteq> None
        \<and> percentField 30 (sm_priceChanges m) \<noteq> None
        \<and> sm_error m = None)
   \<and> (\<exists>m. calculateMarketIndicators realOps isoValue ''2023-02-01T00:00:01.000Z'' (sampleMarket 31) = Inr m
        \<and> changeField 30 (mi_priceChanges m) \<noteq> None
        \<and> percentField 30 (mi_priceChanges m) \<noteq> None
        \<and> mi_error m = None)"
proof -
  have h1: "\<not> truthy (rs_error (sampleStock 31))" by (simp add: sampleStock_def truthy_def)
  have h2: "rs_timeSeries (sampleStock 31) = Some (sampleSeries 31)" by (simp add: sampleStock_def)
  have h4: "rs_overview (sampleStock 31) = Some sampleOverview" by (simp add: sampleStock_def)
  have h5: "\<not> truthy (rm_error (sampleMarket 31))" by (simp add: sampleMarket_def truthy_def)
  have h6: "rm_historical (sampleMarket 31) = Some (map sampleHBar [1..<Suc 31])"
    by (simp add: sampleMarket_def)
  have h7: "(30::nat) \<in> {7, 30, 90}" by simp
  show ?thesis
    using C1_lookback_changes[OF h1 h2 sample_distinct h4 h5 h6 h7,
        of realOps isoValue "''2023-02-01T00:00:01.000Z''"]
    by (auto simp: sample_length)
qed


section \<open>Volatility\<close>

lemma stock_volatility:
  assumes "\<not> truthy (rs_error r)" and "rs_timeSeries r = Some ts"
    and "distinct (map fst ts)" and "rs_overview r = Some ov"
  shows "\<exists>m. calculateStockMetrics ops tv now r = Inr m \<and>
          (volatilityField (sm_volatility m) = None \<longleftrightarrow> length ts \<le> 30) \<and>
          (30 < length ts \<longrightarrow>
             volatilityField (sm_volatility m) =
               Some (n_mul ops
                      (n_mul ops (populationStdev ops (simpleReturns ops (stockCloses ops tv ts)))
                                 (mathSqrt ops (num ops 252)))
                      (num ops 100))) \<and>
          (0 < length ts \<longrightarrow> sm_error m = None \<and> sm_volatility m \<noteq> None)"
proof (cases "ts = []")
  case True
  then show ?thesis
    using assms(1,2) by (simp add: stock_empty volatilityField_def)
next
  case False
  then show ?thesis
    by (simp add: stock_full[OF assms(1,2,3) False assms(4)] volatilityField_def annualize_stdev)
qed

lemma market_volatility:
  assumes "\<not> truthy (rm_error q)" and "rm_historical q = Some hs"
  shows "\<exists>m. calculateMarketIndicators ops tv now q = Inr m \<and>
          (volatilityField (mi_volatility m) = None \<longleftrightarrow> length hs \<le> 30) \<and>
          (30 < length hs \<longrightarrow>
             volatilityField (mi_volatility m) =
               Some (n_mul ops
                      (n_mul ops (populationStdev ops (simpleReturns ops (marketCloses tv hs)))
                                 (mathSqrt ops (num ops 252)))
                      (num ops 100))) \<and>
          (0 < length hs \<longrightarrow> mi_error m = None \<and> mi_volatility m \<noteq> None)"
proof (cases "hs = []")
  case True
  then show ?thesis
    using assms by (simp add: market_empty volatilityField_def)
next
  case False
  then show ?thesis
    by (simp add: market_full[OF assms False] volatilityField_def annualize_stdev)
qed

text \<open>
  Under exact real arithmetic the population standard deviation of the model is the
  textbook one: the root of the mean squared deviation from the mean.
\<close>

lemma sumOnto_snoc: "sumOnto ops acc (xs @ [x]) = n_add ops (sumOnto ops acc xs) x"
  by (induction xs arbitrary: acc) simp_all

lemma sumOf_snoc: "sumOf ops (xs @ [x]) = n_add ops (sumOf ops xs) x"
  by (simp add: sumOf_def sumOnto_snoc)

lemma sumOnto_real: "sumOnto realOps acc xs = acc + sum_list xs"
proof (induction xs arbitrary: acc)
  case Nil
  then show ?case by simp
next
  case (Cons x xs)
  have "n_add realOps acc x = acc + x" by (simp add: realOps_def)
  then show ?case by (simp add: Cons.IH add.assoc)
qed

lemma sumOf_real: "sumOf realOps xs = sum_list xs"
proof -
  have "num realOps 0 = 0" by (simp add: realOps_def)
  then show ?thesis by (simp add: sumOf_def sumOnto_real)
qed

lemma populationStdev_real:
  "populationStdev realOps xs =
     sqrt ((\<Sum>x\<leftarrow>xs. (x - sum_list xs / real (length xs))\<^sup>2) / real (length xs))"
proof -
  have two: "nat \<lfloor>2::real\<rfloor> = 2" by simp
  have sel: "n_div realOps = (/)" "num realOps = real" "mathSqrt realOps = sqrt"
    by (simp_all add: realOps_def)
  have mean: "meanOf realOps xs = sum_list xs / real (length xs)"
    by (simp add: meanOf_def sumOf_real sel)
  have dev: "squaredDeviation realOps (sum_list xs / real (length xs)) =
             (\<lambda>x. (x - sum_list xs / real (length xs))\<^sup>2)"
    by (rule ext) (simp add: squaredDeviation_def realOps_def two)
  show ?thesis
    by (simp add: populationStdev_def mean dev sumOf_real sel)
qed

text \<open>
  C2. For a raw series of n bars that carries no error, the 30-day volatility of the record
  is null exactly when n <= 30 (for n = 0 the no-data record has no volatility block); for
  n > 30 it is the population standard deviation of the 30 simple daily returns
  \<open>(close[i] - close[i+1]) / close[i+1]\<close>, i = 0..29, over the bars in date-descending
  order, times \<open>sqrt(252)\<close>, times 100. The same holds for the index. The sum that
  the standard deviation is built on starts from zero and adds the elements in order, and
  under exact real arithmetic the standard deviation is the root of the mean of the squared
  deviations from the mean.
\<close>

theorem C2_volatility:
  assumes "\<not> truthy (rs_error r)" and "rs_timeSeries r = Some ts"
    and "distinct (map fst ts)" and "rs_overview r = Some ov"
    and "\<not> truthy (rm_error q)" and "rm_historical q = Some hs"
  shows "(\<exists>m. calculateStockMetrics ops tv now r = Inr m \<and>
          (volatilityField (sm_volatility m) = None \<longleftrightarrow> length ts \<le> 30) \<and>
          (30 < length ts \<longrightarrow>
             volatilityField (sm_volatility m) =
               Some (n_mul ops
                      (n_mul ops (populationStdev ops (simpleReturns ops (stockCloses ops tv ts)))
                                 (mathSqrt ops (num ops 252)))
                      (num ops 100))) \<and>
          (0 < length ts \<longrightarrow> sm_error m = None \<and> sm_volatility m \<noteq> None))
       \<and> (\<exists>m. calculateMarketIndicators ops tv now q = Inr m \<and>
          (volatilityField (mi_volatility m) = None \<longleftrightarrow> length hs \<le> 30) \<and>
          (30 < length hs \<longrightarrow>
             volatilityField (mi_volatility m) =
               Some (n_mul ops
                      (n_mul ops (populationStdev ops (simpleReturns ops (marketCloses tv hs)))
                                 (mathSqrt ops (num ops 252)))
                      (num ops 100))) \<and>
          (0 < length hs \<longrightarrow> mi_error m = None \<and> mi_volatility m \<noteq> None))
       \<and> length (simpleReturns ops (stockCloses ops tv ts)) = 30
       \<and> length (simpleReturns ops (marketCloses tv hs)) = 30
       \<and> simpleReturns ops (stockCloses ops tv ts) =
           map (\<lambda>i. n_div ops (n_sub ops (stockCloses ops tv ts ! i) (stockCloses ops tv ts ! (i + 1)))
                              (stockCloses ops tv ts ! (i + 1))) [0..<30]
       \<and> sumOf ops [] = num ops 0
       \<and> sumOf ops (xs @ [x]) = n_add ops (sumOf ops xs) x
       \<and> populationStdev ops xs =
           mathSqrt ops
             (n_div ops
                (sumOf ops (map (\<lambda>x. mathPow ops
                                        (n_sub ops x (n_div ops (sumOf ops xs) (num ops (length xs))))
                                        (num ops 2)) xs))
                (num ops (length xs)))
       \<and> populationStdev realOps ys =
           sqrt ((\<Sum>y\<leftarrow>ys. (y - sum_list ys / real (length ys))\<^sup>2) / real (length ys))"
proof -
  have unfold: "populationStdev ops xs =
           mathSqrt ops
             (n_div ops
                (sumOf ops (map (\<lambda>x. mathPow ops
                                        (n_sub ops x (n_div ops (sumOf ops xs) (num ops (length xs))))
                                        (num ops 2)) xs))
                (num ops (length xs)))"
    by (simp add: populationStdev_def meanOf_def squaredDeviation_def[abs_def])
  have nil: "sumOf ops [] = num ops 0" by (simp add: sumOf_def)
  have rets: "simpleReturns ops (stockCloses ops tv ts) =
           map (\<lambda>i. n_div ops (n_sub ops (stockCloses ops tv ts ! i) (stockCloses ops tv ts ! (i + 1)))
                              (stockCloses ops tv ts ! (i + 1))) [0..<30]"
    by (simp add: simpleReturns_def)
  show ?thesis
    using stock_volatility[OF assms(1,2,3,4), of ops tv now]
      market_volatility[OF assms(5,6), of ops tv now]
      simpleReturns_length[of ops "stockCloses ops tv ts"]
      simpleReturns_length[of ops "marketCloses tv hs"]
      rets nil sumOf_snoc[of ops xs x] unfold populationStdev_real[of ys]
    by blast
qed

theorem C2_volatility_witness:
  "(\<exists>m. calculateStockMetrics realOps isoValue ''2023-02-01T00:00:01.000Z'' (sampleStock 31) = Inr m
        \<and> volatilityField (sm_volatility m) =
            Some (sqrt ((\<Sum>y\<leftarrow>simpleReturns realOps (stockCloses realOps isoValue (sampleSeries 31)).
                          (y - sum_list (simpleReturns realOps
                                 (stockCloses realOps isoValue (sampleSeries 31))) / 30)\<^sup>2) / 30)
                  * sqrt 252 * 100))
   \<and> (\<exists>m. calculateMarketIndicators realOps isoValue ''2023-02-01T00:00:01.000Z'' (sampleMarket 31) = Inr m
        \<and> volatilityField (mi_volatility m) \<noteq> None)"
proof -
  have h1: "\<not> truthy (rs_error (sampleStock 31))" by (simp add: sampleStock_def truthy_def)
  have h2: "rs_timeSeries (sampleStock 31) = Some (sampleSeries 31)" by (simp add: sampleStock_def)
  have h4: "rs_overview (sampleStock 31) = Some sampleOverview" by (simp add: sampleStock_def)
  have h5: "\<not> truthy (rm_error (sampleMarket 31))" by (simp add: sampleMarket_def truthy_def)
  have h6: "rm_historical (sampleMarket 31) = Some (map sampleHBar [1..<Suc 31])"
    by (simp add: sampleMarket_def)
  have ops: "n_mul realOps = (*)" "mathSqrt realOps = sqrt" "num realOps = real"
    by (simp_all add: realOps_def)
  note t = C2_volatility[OF h1 h2 sample_distinct h4 h5 h6,
        of realOps isoValue "''2023-02-01T00:00:01.000Z''" "[]" 0
           "simpleReturns realOps (stockCloses realOps isoValue (sampleSeries 31))"]
  have len: "real (length (simpleReturns realOps (stockCloses realOps isoValue (sampleSeries 31))))
             = 30"
    by (simp add: simpleReturns_length)
  have sd: "populationStdev realOps
              (simpleReturns realOps (stockCloses realOps isoValue (sampleSeries 31))) =
            sqrt ((\<Sum>y\<leftarrow>simpleReturns realOps (stockCloses realOps isoValue (sampleSeries 31)).
                     (y - sum_list (simpleReturns realOps
                            (stockCloses realOps isoValue (sampleSeries 31))) / 30)\<^sup>2) / 30)"
    by (rule t[THEN conjunct2, THEN conjunct2, THEN conjunct2, THEN conjunct2, THEN conjunct2,
               THEN conjunct2, THEN conjunct2, THEN conjunct2, unfolded len])
  have a: "\<exists>m. calculateStockMetrics realOps isoValue ''2023-02-01T00:00:01.000Z'' (sampleStock 31)
              = Inr m
        \<and> volatilityField (sm_volatility m) =
            Some (populationStdev realOps (simpleReturns realOps
                    (stockCloses realOps isoValue (sampleSeries 31))) * sqrt 252 * 100)"
    using t[THEN conjunct1] by (auto simp: sample_length ops)
  have b: "\<exists>m. calculateMarketIndicators realOps isoValue ''2023-02-01T00:00:01.000Z''
                (sampleMarket 31) = Inr m
        \<and> volatilityField (mi_volatility m) \<noteq> None"
    using t[THEN conjunct2, THEN conjunct1] by auto
  show ?thesis
    using a b unfolding sd by blast
qed


section \<open>Degenerate records\<close>

lemma stock_degenerate:
  assumes "truthy (rs_error r) \<or>
           (\<exists>ts ov. rs_timeSeries r = Some ts \<and> distinct (map fst ts) \<and> rs_overview r = Some ov)"
  shows "\<exists>m. calculateStockMetrics ops tv now r = Inr m \<and>
          sm_symbol m = rs_symbol r \<and> sm_transformedAt m = now \<and>
          (degenerateStock m \<longleftrightarrow> truthy (rs_error r) \<or> rs_timeSeries r = Some []) \<and>
          (truthy (rs_error r) \<longrightarrow> sm_error m = rs_error r) \<and>
          (\<not> truthy (rs_error r) \<and> rs_timeSeries r = Some [] \<longrightarrow>
             sm_error m = Some ''No time series data available'')"
proof (cases "truthy (rs_error r)")
  case True
  then show ?thesis by (simp add: stock_error degenerateStock_def)
next
  case False
  then obtain ts ov where t: "rs_timeSeries r = Some ts" and d: "distinct (map fst ts)"
    and o: "rs_overview r = Some ov"
    using assms by blast
  show ?thesis
  proof (cases "ts = []")
    case True
    then show ?thesis
      using False t by (simp add: stock_empty degenerateStock_def truthy_def)
  next
    case ne: False
    then show ?thesis
      using False t
      by (simp add: stock_full[OF False t d ne o] degenerateStock_def truthy_def)
  qed
qed

lemma market_degenerate:
  assumes "truthy (rm_error q) \<or> (\<exists>hs. rm_historical q = Some hs)"
  shows "\<exists>m. calculateMarketIndicators ops tv now q = Inr m \<and>
          mi_index m = rm_index q \<and> mi_transformedAt m = now \<and>
          (degenerateMarket m \<longleftrightarrow> truthy (rm_error q) \<or> rm_historical q = Some []) \<and>
          (truthy (rm_error q) \<longrightarrow> mi_error m = rm_error q) \<and>
          (\<not> truthy (rm_error q) \<and> rm_historical q = Some [] \<longrightarrow>
             mi_error m = Some ''No historical data available'')"
proof (cases "truthy (rm_error q)")
  case True
  then show ?thesis by (simp add: market_error degenerateMarket_def)
next
  case False
  then obtain hs where h: "rm_historical q = Some hs"
    using assms by blast
  show ?thesis
  proof (cases "hs = []")
    case True
    then show ?thesis
      using False h by (simp add: market_empty degenerateMarket_def truthy_def)
  next
    case ne: False
    then show ?thesis
      using False h
      by (simp add: market_full[OF False h ne] degenerateMarket_def truthy_def)
  qed
qed

text \<open>
  C5 on the code. \<open>if (stockData.error)\<close> tests the error message for truthiness, and
  the empty string is falsy. The failure record that the extractor builds when a request is
  rejected with an empty message carries an error (its \<open>error\<close> is the empty string)
  and neither series nor overview; on it the metric engine does not return a degenerate
  record with that error: \<open>Object.keys(timeSeries)\<close> throws a TypeError, and so does
  the spread of \<open>historical\<close> for the index.
\<close>

theorem C5_empty_message_throws:
  "fetchStockData emptyMessageWorld ''AAPL'' =
     \<lparr> rs_symbol = ''AAPL'', rs_timeSeries = None, rs_overview = None,
       rs_error = Some [], rs_extractedAt = ''2023-02-01T00:00:00.000Z'' \<rparr>
   \<and> calculateStockMetrics (ops :: 'n numOps) tv now (fetchStockData emptyMessageWorld ''AAPL'') =
       Inl (TypeError ''Cannot convert undefined or null to object'')
   \<and> fetchMarketIndexData (emptyMessageIndexWorld :: 'n indexWorld) =
       \<lparr> rm_index = ''S&P500'', rm_historical = None, rm_error = Some [],
         rm_extractedAt = ''2023-02-01T00:00:00.000Z'' \<rparr>
   \<and> calculateMarketIndicators ops tv now (fetchMarketIndexData emptyMessageIndexWorld) =
       Inl (TypeError ''historical is not iterable'')"
proof -
  have s: "fetchStockData emptyMessageWorld ''AAPL'' =
     \<lparr> rs_symbol = ''AAPL'', rs_timeSeries = None, rs_overview = None,
       rs_error = Some [], rs_extractedAt = ''2023-02-01T00:00:00.000Z'' \<rparr>"
    by (simp add: fetchStockData_def failedFetch_def emptyMessageWorld_def)
  have m: "fetchMarketIndexData (emptyMessageIndexWorld :: 'n indexWorld) =
       \<lparr> rm_index = ''S&P500'', rm_historical = None, rm_error = Some [],
         rm_extractedAt = ''2023-02-01T00:00:00.000Z'' \<rparr>"
    by (simp add: fetchMarketIndexData_def emptyMessageIndexWorld_def)
  have cs: "calculateStockMetrics ops tv now (fetchStockData emptyMessageWorld ''AAPL'') =
       Inl (TypeError ''Cannot convert undefined or null to object'')"
    unfolding s by (simp add: calculateStockMetrics_def truthy_def)
  have cm: "calculateMarketIndicators ops tv now
              (fetchMarketIndexData (emptyMessageIndexWorld :: 'n indexWorld)) =
       Inl (TypeError ''historical is not iterable'')"
    unfolding m by (simp add: calculateMarketIndicators_def truthy_def)
  show ?thesis using s cs m cm by blast
qed

section \<open>Fundamentals\<close>

text \<open>
  C8. For an equity whose raw record carries no error and has at least one bar, each of the
  eleven ratio fields of the record is the decimal parse of the corresponding field of the
  overview when that field is present and non-empty, and null otherwise; dividend yield,
  profit margin, operating margin, return on assets and return on equity are multiplied
  by 100; market cap, P/E, EPS, revenue, gross profit and diluted EPS are not.
\<close>

theorem C8_fundamentals:
  assumes "\<not> truthy (rs_error r)" and "rs_timeSeries r = Some ts"
    and "distinct (map fst ts)" and "ts \<noteq> []" and "rs_overview r = Some ov"
  shows "\<exists>m f. calculateStockMetrics ops tv now r = Inr m \<and> sm_fundamentals m = Some f \<and>
          marketCap f = decimalOrNull ops (ov ''MarketCapitalization'') \<and>
          peRatio f = decimalOrNull ops (ov ''PERatio'') \<and>
          dividendYield f = percentOrNull ops (ov ''DividendYield'') \<and>
          eps f = decimalOrNull ops (ov ''EPS'') \<and>
          revenue f = decimalOrNull ops (ov ''RevenueTTM'') \<and>
          grossProfit f = decimalOrNull ops (ov ''GrossProfitTTM'') \<and>
          profitMargin f = percentOrNull ops (ov ''ProfitMargin'') \<and>
          operatingMargin f = percentOrNull ops (ov ''OperatingMarginTTM'') \<and>
          roa f = percentOrNull ops (ov ''ReturnOnAssetsTTM'') \<and>
          roe f = percentOrNull ops (ov ''ReturnOnEquityTTM'') \<and>
          dilutedEPS f = decimalOrNull ops (ov ''DilutedEPSTTM'')"
  by (simp add: stock_full[OF assms] ratio_decimalOrNull ratio100_percentOrNull)

theorem C8_fundamentals_witness:
  "\<exists>m f. calculateStockMetrics realOps isoValue ''2023-02-01T00:00:01.000Z'' (sampleStock 31) = Inr m
      \<and> sm_fundamentals m = Some f
      \<and> peRatio f = Some (parseFloat realOps ''20'')
      \<and> dividendYield f = Some (parseFloat realOps ''2'' * 100)
      \<and> eps f = None \<and> revenue f = None"
proof -
  have h1: "\<not> truthy (rs_error (sampleStock 31))" by (simp add: sampleStock_def truthy_def)
  have h2: "rs_timeSeries (sampleStock 31) = Some (sampleSeries 31)" by (simp add: sampleStock_def)
  have h4: "sampleSeries 31 \<noteq> []" using sample_length[of 31] by auto
  have h5: "rs_overview (sampleStock 31) = Some sampleOverview" by (simp add: sampleStock_def)
  have ops: "n_mul realOps = (*)" "num realOps = real"
    by (simp_all add: realOps_def)
  show ?thesis
    using C8_fundamentals[OF h1 h2 sample_distinct h4 h5,
        of realOps isoValue "''2023-02-01T00:00:01.000Z''"]
    by (auto simp: sampleOverview_def decimalOrNull_def percentOrNull_def ops)
qed

section \<open>Determinism\<close>





section \<open>Loader: conservation of the counts\<close>

lemma loadStockLoop_counts:
  "length (lr_success (fst (loadStockLoop ins stocks results db)))
   + length (lr_errors (fst (loadStockLoop ins stocks results db)))
   = length (lr_success results) + length (lr_errors results) + length stocks"
proof (induction stocks arbitrary: results db)
  case Nil
  then show ?case by simp
next
  case (Cons stock rest)
  show ?case
  proof (cases "truthy (sm_error stock)")
    case True
    then show ?thesis by (simp add: Cons.IH)
  next
    case False
    show ?thesis
    proof (cases "stockRowOf stock")
      case (Inl e)
      then show ?thesis using False by (simp add: Cons.IH)
    next
      case (Inr row)
      obtain err db' where i: "ins db row = (err, db')" by (cases "ins db row")
      show ?thesis
        using False Inr i by (cases err) (simp_all add: Cons.IH)
    qed
  qed
qed

text \<open>
  C10. Whatever the storage answers, the result of \<open>load\<close> conserves the counts:
  \<open>stocksLoaded + stockErrors\<close> is the number of stock records given,
  \<open>indicatorsLoaded + indicatorErrors\<close> is 1, and \<open>indicatorsLoaded\<close> is 0 or 1.
\<close>

theorem C10_count_conservation:
  "stocksLoaded (fst (load insStock insMarket now db td))
     + stockErrors (fst (load insStock insMarket now db td)) = length (td_stockMetrics td)
   \<and> indicatorsLoaded (fst (load insStock insMarket now db td))
     + indicatorErrors (fst (load insStock insMarket now db td)) = 1
   \<and> indicatorsLoaded (fst (load insStock insMarket now db td)) \<in> {0, 1}"
proof -
  obtain sr db1 where s: "loadStockMetrics insStock db (td_stockMetrics td) = (sr, db1)"
    by (cases "loadStockMetrics insStock db (td_stockMetrics td)")
  have "length (lr_success sr) + length (lr_errors sr) = length (td_stockMetrics td)"
    using loadStockLoop_counts[of insStock "td_stockMetrics td"
             "\<lparr> lr_success = [], lr_errors = [] \<rparr>" db] s
    by (simp add: loadStockMetrics_def)
  then show ?thesis
    using s by (simp add: load_def split: prod.splits option.splits)
qed

theorem C10_count_conservation_witness:
  "stocksLoaded (fst (load insertStockRow insertMarketRow ''2023-02-01T00:00:03.000Z'' loadedOnce
       \<lparr> td_stockMetrics = [sampleMetrics, sampleMetrics],
         td_marketIndicators = None,
         td_transformationTimestamp = ''2023-02-01T00:00:02.000Z'' \<rparr>))
   + stockErrors (fst (load insertStockRow insertMarketRow ''2023-02-01T00:00:03.000Z'' loadedOnce
       \<lparr> td_stockMetrics = [sampleMetrics, sampleMetrics],
         td_marketIndicators = None,
         td_transformationTimestamp = ''2023-02-01T00:00:02.000Z'' \<rparr>)) = 2"
  using C10_count_conservation[of insertStockRow insertMarketRow "''2023-02-01T00:00:03.000Z''"
      loadedOnce "\<lparr> td_stockMetrics = [sampleMetrics, sampleMetrics],
         td_marketIndicators = None,
         td_transformationTimestamp = ''2023-02-01T00:00:02.000Z'' \<rparr>"]
  by simp


section \<open>Loader: loading a record twice\<close>

lemma filter_key_unique:
  "distinct (map f xs) \<Longrightarrow> k \<in> set (map f xs) \<Longrightarrow> length (filter (\<lambda>r. f r = k) xs) = 1"
proof (induction xs)
  case Nil
  then show ?case by simp
next
  case (Cons x xs)
  show ?case
  proof (cases "f x = k")
    case True
    then have "k \<notin> set (map f xs)" using Cons.prems(1) by auto
    then have "filter (\<lambda>r. f r = k) xs = []" by (auto simp: filter_empty_conv)
    then show ?thesis using True by simp
  next
    case False
    then show ?thesis using Cons by auto
  qed
qed

lemma filter_key_absent:
  "k \<notin> set (map f xs) \<Longrightarrow> filter (\<lambda>r. f r = k) xs = []"
  by (auto simp: filter_empty_conv)

lemma stockRowOf_key:
  "stockRowOf m = Inr row \<Longrightarrow> sr_symbol row = sm_symbol m \<and> sr_date row = sm_date m"
  by (auto simp: stockRowOf_def split: option.splits)

lemma loadStockMetrics_one:
  assumes "\<not> truthy (sm_error m)" and "stockRowOf m = Inr row"
  shows "loadStockMetrics ins db [m] =
     (case ins db row of
        (Some e, db') \<Rightarrow>
          (\<lparr> lr_success = [], lr_errors = [(sm_symbol m, Some (message e))] \<rparr>, db')
      | (None, db') \<Rightarrow>
          (\<lparr> lr_success = [(sm_symbol m, sm_date m)], lr_errors = [] \<rparr>, db'))"
  using assms by (simp add: loadStockMetrics_def split: prod.splits option.splits)

lemma insertStockRow_present:
  assumes "sr_date row \<noteq> None" and "stockKey row \<in> set (map stockKey (stock_metrics db))"
  shows "insertStockRow db row =
     (Some (ErrorObj ''duplicate key value violates unique constraint stock_metrics_symbol_date_key''),
      db)"
proof -
  have "(sr_symbol row, sr_date row) \<in> set (map (\<lambda>r. (sr_symbol r, sr_date r)) (stock_metrics db))"
    using assms(2) by (simp add: stockKey_def)
  then show ?thesis using assms(1) by (simp add: insertStockRow_def)
qed

lemma insertStockRow_absent:
  assumes "sr_date row \<noteq> None" and "stockKey row \<notin> set (map stockKey (stock_metrics db))"
  shows "insertStockRow db row = (None, db\<lparr> stock_metrics := stock_metrics db @ [row] \<rparr>)"
proof -
  have "(sr_symbol row, sr_date row) \<notin> set (map (\<lambda>r. (sr_symbol r, sr_date r)) (stock_metrics db))"
    using assms(2) by (simp add: stockKey_def)
  then show ?thesis using assms(1) by (simp add: insertStockRow_def)
qed

lemma marketRowOf_key:
  "marketRowOf mi = Inr row \<Longrightarrow> mr_index_name row = mi_index mi \<and> mr_date row = mi_date mi"
  by (auto simp: marketRowOf_def split: option.splits)

lemma loadMarketIndicators_one:
  assumes "\<not> truthy (mi_error mi)" and "marketRowOf mi = Inr row"
  shows "loadMarketIndicators ins db (Some mi) =
     (case ins db row of
        (Some e, db') \<Rightarrow>
          (\<lparr> mk_success = False, mk_index = Some (mi_index mi), mk_date = None,
             mk_error = Some (message e) \<rparr>, db')
      | (None, db') \<Rightarrow>
          (\<lparr> mk_success = True, mk_index = Some (mi_index mi), mk_date = mi_date mi,
             mk_error = None \<rparr>, db'))"
  using assms by (simp add: loadMarketIndicators_def split: prod.splits option.splits)

lemma insertMarketRow_present:
  assumes "mr_date row \<noteq> None" and "marketKey row \<in> set (map marketKey (market_indicators db))"
  shows "insertMarketRow db row =
     (Some (ErrorObj ''duplicate key value violates unique constraint market_indicators_index_name_date_key''),
      db)"
proof -
  have "(mr_index_name row, mr_date row)
          \<in> set (map (\<lambda>r. (mr_index_name r, mr_date r)) (market_indicators db))"
    using assms(2) by (simp add: marketKey_def)
  then show ?thesis using assms(1) by (simp add: insertMarketRow_def)
qed

lemma insertMarketRow_absent:
  assumes "mr_date row \<noteq> None" and "marketKey row \<notin> set (map marketKey (market_indicators db))"
  shows "insertMarketRow db row = (None, db\<lparr> market_indicators := market_indicators db @ [row] \<rparr>)"
proof -
  have "(mr_index_name row, mr_date row)
          \<notin> set (map (\<lambda>r. (mr_index_name r, mr_date r)) (market_indicators db))"
    using assms(2) by (simp add: marketKey_def)
  then show ?thesis using assms(1) by (simp add: insertMarketRow_def)
qed

lemma stock_repeat:
  assumes "\<not> truthy (sm_error m)" and "stockRowOf m = Inr row" and "sm_date m \<noteq> None"
    and "distinct (map stockKey (stock_metrics db))"
  shows "length (rowsFor (sm_symbol m, sm_date m)
            (snd (loadStockMetrics insertStockRow
                    (snd (loadStockMetrics insertStockRow db [m])) [m]))) = 1
       \<and> snd (loadStockMetrics insertStockRow (snd (loadStockMetrics insertStockRow db [m])) [m])
           = snd (loadStockMetrics insertStockRow db [m])
       \<and> fst (loadStockMetrics insertStockRow (snd (loadStockMetrics insertStockRow db [m])) [m])
           = \<lparr> lr_success = [],
               lr_errors = [(sm_symbol m, Some
                 ''duplicate key value violates unique constraint stock_metrics_symbol_date_key'')] \<rparr>"
proof -
  have key: "stockKey row = (sm_symbol m, sm_date m)"
    using stockRowOf_key[OF assms(2)] by (simp add: stockKey_def)
  have date: "sr_date row \<noteq> None"
    using stockRowOf_key[OF assms(2)] assms(3) by simp
  show ?thesis
  proof (cases "stockKey row \<in> set (map stockKey (stock_metrics db))")
    case True
    have one: "length (filter (\<lambda>r. stockKey r = (sm_symbol m, sm_date m)) (stock_metrics db)) = 1"
      using filter_key_unique[OF assms(4), of "(sm_symbol m, sm_date m)"] True key by simp
    show ?thesis
      using one
      by (simp add: loadStockMetrics_one[OF assms(1,2)] insertStockRow_present[OF date True]
            rowsFor_def)
  next
    case False
    let ?db1 = "db\<lparr> stock_metrics := stock_metrics db @ [row] \<rparr>"
    have in1: "stockKey row \<in> set (map stockKey (stock_metrics ?db1))" by simp
    have none: "filter (\<lambda>r. stockKey r = (sm_symbol m, sm_date m)) (stock_metrics db) = []"
      using filter_key_absent[of "(sm_symbol m, sm_date m)" stockKey "stock_metrics db"] False key
      by simp
    show ?thesis
      using none key
      by (simp add: loadStockMetrics_one[OF assms(1,2)] insertStockRow_absent[OF date False]
            insertStockRow_present[OF date in1] rowsFor_def)
  qed
qed

lemma market_repeat:
  assumes "\<not> truthy (mi_error mi)" and "marketRowOf mi = Inr row" and "mi_date mi \<noteq> None"
    and "distinct (map marketKey (market_indicators db))"
  shows "length (marketRowsFor (mi_index mi, mi_date mi)
            (snd (loadMarketIndicators insertMarketRow
                    (snd (loadMarketIndicators insertMarketRow db (Some mi))) (Some mi)))) = 1
       \<and> snd (loadMarketIndicators insertMarketRow
               (snd (loadMarketIndicators insertMarketRow db (Some mi))) (Some mi))
           = snd (loadMarketIndicators insertMarketRow db (Some mi))
       \<and> fst (loadMarketIndicators insertMarketRow
               (snd (loadMarketIndicators insertMarketRow db (Some mi))) (Some mi))
           = \<lparr> mk_success = False, mk_index = Some (mi_index mi), mk_date = None,
               mk_error = Some
                 ''duplicate key value violates unique constraint market_indicators_index_name_date_key'' \<rparr>"
proof -
  have key: "marketKey row = (mi_index mi, mi_date mi)"
    using marketRowOf_key[OF assms(2)] by (simp add: marketKey_def)
  have date: "mr_date row \<noteq> None"
    using marketRowOf_key[OF assms(2)] assms(3) by simp
  show ?thesis
  proof (cases "marketKey row \<in> set (map marketKey (market_indicators db))")
    case True
    have one: "length (filter (\<lambda>r. marketKey r = (mi_index mi, mi_date mi))
                         (market_indicators db)) = 1"
      using filter_key_unique[OF assms(4), of "(mi_index mi, mi_date mi)"] True key by simp
    show ?thesis
      using one
      by (simp add: loadMarketIndicators_one[OF assms(1,2)] insertMarketRow_present[OF date True]
            marketRowsFor_def)
  next
    case False
    let ?db1 = "db\<lparr> market_indicators := market_indicators db @ [row] \<rparr>"
    have in1: "marketKey row \<in> set (map marketKey (market_indicators ?db1))" by simp
    have none: "filter (\<lambda>r. marketKey r = (mi_index mi, mi_date mi)) (market_indicators db) = []"
      using filter_key_absent[of "(mi_index mi, mi_date mi)" marketKey "market_indicators db"]
        False key
      by simp
    show ?thesis
      using none key
      by (simp add: loadMarketIndicators_one[OF assms(1,2)] insertMarketRow_absent[OF date False]
            insertMarketRow_present[OF date in1] marketRowsFor_def)
  qed
qed

text \<open>
  C3, as the code has it. The write is a plain insert, and the table refuses a second
  row with the same (symbol, date). For a record without error that has its blocks and
  its date, loaded twice into a table whose keys are unique: after the second call the
  table holds exactly one row with the record's key and is as the first call left it; the
  second call returns (it does not raise), with the record in \<open>errors\<close>, under the
  message of the refused insert, and nothing in \<open>success\<close>. The same holds for the
  record of the index, whose second load returns \<open>success: false\<close>.
\<close>

theorem C3_repeat_load_one_row:
  assumes "\<not> truthy (sm_error m)" and "stockRowOf m = Inr row" and "sm_date m \<noteq> None"
    and "distinct (map stockKey (stock_metrics db))"
    and "\<not> truthy (mi_error mi)" and "marketRowOf mi = Inr mrow" and "mi_date mi \<noteq> None"
    and "distinct (map marketKey (market_indicators db))"
  shows "(length (rowsFor (sm_symbol m, sm_date m)
            (snd (loadStockMetrics insertStockRow
                    (snd (loadStockMetrics insertStockRow db [m])) [m]))) = 1
       \<and> snd (loadStockMetrics insertStockRow (snd (loadStockMetrics insertStockRow db [m])) [m])
           = snd (loadStockMetrics insertStockRow db [m])
       \<and> fst (loadStockMetrics insertStockRow (snd (loadStockMetrics insertStockRow db [m])) [m])
           = \<lparr> lr_success = [],
               lr_errors = [(sm_symbol m, Some
                 ''duplicate key value violates unique constraint stock_metrics_symbol_date_key'')] \<rparr>)
    \<and> (length (marketRowsFor (mi_index mi, mi_date mi)
            (snd (loadMarketIndicators insertMarketRow
                    (snd (loadMarketIndicators insertMarketRow db (Some mi))) (Some mi)))) = 1
       \<and> snd (loadMarketIndicators insertMarketRow
               (snd (loadMarketIndicators insertMarketRow db (Some mi))) (Some mi))
           = snd (loadMarketIndicators insertMarketRow db (Some mi))
       \<and> fst (loadMarketIndicators insertMarketRow
               (snd (loadMarketIndicators insertMarketRow db (Some mi))) (Some mi))
           = \<lparr> mk_success = False, mk_index = Some (mi_index mi), mk_date = None,
               mk_error = Some
                 ''duplicate key value violates unique constraint market_indicators_index_name_date_key'' \<rparr>)"
  using stock_repeat[OF assms(1,2,3,4)] market_repeat[OF assms(5,6,7,8)]
  by (rule conjI)

lemma sampleMetrics_row:
  "stockRowOf sampleMetrics =
     Inr \<lparr> sr_symbol = ''SAMPLE'', sr_date = Some ''2023-01-01'',
           sr_price = \<lparr> p_open = 100, p_high = 105, p_low = 99, p_close = 102,
                        p_volume = 1000000 \<rparr>,
           sr_priceChanges = \<lparr> change7d = Some 2, change30d = Some 5, change90d = Some 10,
                               percentChange7d = Some 2, percentChange30d = Some 5,
                               percentChange90d = Some 10 \<rparr>,
           sr_volatility_30d = Some 15,
           sr_fundamentals = \<lparr> marketCap = Some 1000000000, peRatio = Some 20,
                               dividendYield = Some 2, eps = Some 5, revenue = Some 10000000,
                               grossProfit = Some 5000000, profitMargin = Some 20,
                               operatingMargin = Some 25, roa = Some 10, roe = Some 15,
                               dilutedEPS = Some (48 / 10) \<rparr>,
           sr_processed_at = ''2023-02-01T00:00:02.000Z'' \<rparr>"
  by (simp add: stockRowOf_def sampleMetrics_def)

theorem C3_repeat_load_one_row_witness:
  "length (rowsFor (''SAMPLE'', Some ''2023-01-01'')
      (snd (loadStockMetrics insertStockRow loadedOnce [sampleMetrics]))) = 1
   \<and> lr_success (fst (loadStockMetrics insertStockRow loadedOnce [sampleMetrics])) = []"
proof -
  have h1: "\<not> truthy (sm_error sampleMetrics)" by (simp add: sampleMetrics_def truthy_def)
  have h3: "sm_date sampleMetrics \<noteq> None" by (simp add: sampleMetrics_def)
  have h4: "distinct (map stockKey (stock_metrics emptyTables))" by (simp add: emptyTables_def)
  have s: "sm_symbol sampleMetrics = ''SAMPLE''" "sm_date sampleMetrics = Some ''2023-01-01''"
    by (simp_all add: sampleMetrics_def)
  have g1: "\<not> truthy (mi_error sampleIndicators)" by (simp add: sampleIndicators_def truthy_def)
  have g2: "marketRowOf sampleIndicators =
     Inr \<lparr> mr_index_name = ''SAMPLE_INDEX'', mr_date = Some ''2023-01-01'',
           mr_price = \<lparr> p_open = 4000, p_high = 4100, p_low = 3950, p_close = 4050,
                        p_volume = 10000000 \<rparr>,
           mr_priceChanges = \<lparr> change7d = Some 50, change30d = Some 100,
                               change90d = Some 200, percentChange7d = Some (125 / 100),
                               percentChange30d = Some (25 / 10), percentChange90d = Some 5 \<rparr>,
           mr_volatility_30d = Some 12,
           mr_processed_at = ''2023-02-01T00:00:02.000Z'' \<rparr>"
    by (simp add: marketRowOf_def sampleIndicators_def)
  have g3: "mi_date sampleIndicators \<noteq> None" by (simp add: sampleIndicators_def)
  have g4: "distinct (map marketKey (market_indicators emptyTables))" by (simp add: emptyTables_def)
  note t = C3_repeat_load_one_row[OF h1 sampleMetrics_row h3 h4 g1 g2 g3 g4,
      THEN conjunct1, unfolded s]
  have a: "length (rowsFor (''SAMPLE'', Some ''2023-01-01'')
      (snd (loadStockMetrics insertStockRow
              (snd (loadStockMetrics insertStockRow emptyTables [sampleMetrics]))
              [sampleMetrics]))) = 1"
    using t by (rule conjunct1)
  have c: "fst (loadStockMetrics insertStockRow
              (snd (loadStockMetrics insertStockRow emptyTables [sampleMetrics]))
              [sampleMetrics]) =
           \<lparr> lr_success = [],
             lr_errors = [(''SAMPLE'', Some
               ''duplicate key value violates unique constraint stock_metrics_symbol_date_key'')] \<rparr>"
    using t by (rule conjunct2[THEN conjunct2])
  show ?thesis
    unfolding loadedOnce_def using a c by simp
qed

text \<open>
  C3 as stated fails: the sample record of load.js, loaded into the empty tables and then
  loaded again, is counted on the repeat run in \<open>errors\<close> and not in \<open>success\<close>.
\<close>

theorem C3_counterexample:
  "lr_success (fst (loadStockMetrics insertStockRow loadedOnce [sampleMetrics])) = []
   \<and> lr_errors (fst (loadStockMetrics insertStockRow loadedOnce [sampleMetrics])) =
       [(''SAMPLE'', Some
          ''duplicate key value violates unique constraint stock_metrics_symbol_date_key'')]
   \<and> lr_success (fst (loadStockMetrics insertStockRow emptyTables [sampleMetrics])) =
       [(''SAMPLE'', Some ''2023-01-01'')]"
proof -
  have h1: "\<not> truthy (sm_error sampleMetrics)" by (simp add: sampleMetrics_def truthy_def)
  have s: "sm_symbol sampleMetrics = ''SAMPLE''" "sm_date sampleMetrics = Some ''2023-01-01''"
    by (simp_all add: sampleMetrics_def)
  have first: "loadStockMetrics insertStockRow emptyTables [sampleMetrics] =
      (\<lparr> lr_success = [(''SAMPLE'', Some ''2023-01-01'')], lr_errors = [] \<rparr>,
       emptyTables\<lparr> stock_metrics :=
         [\<lparr> sr_symbol = ''SAMPLE'', sr_date = Some ''2023-01-01'',
           sr_price = \<lparr> p_open = 100, p_high = 105, p_low = 99, p_close = 102,
                        p_volume = 1000000 \<rparr>,
           sr_priceChanges = \<lparr> change7d = Some 2, change30d = Some 5, change90d = Some 10,
                               percentChange7d = Some 2, percentChange30d = Some 5,
                               percentChange90d = Some 10 \<rparr>,
           sr_volatility_30d = Some 15,
           sr_fundamentals = \<lparr> marketCap = Some 1000000000, peRatio = Some 20,
                               dividendYield = Some 2, eps = Some 5, revenue = Some 10000000,
                               grossProfit = Some 5000000, profitMargin = Some 20,
                               operatingMargin = Some 25, roa = Some 10, roe = Some 15,
                               dilutedEPS = Some (48 / 10) \<rparr>,
           sr_processed_at = ''2023-02-01T00:00:02.000Z'' \<rparr>] \<rparr>)"
    by (simp add: loadStockMetrics_one[OF h1 sampleMetrics_row] insertStockRow_def
          emptyTables_def s)
  show ?thesis
    unfolding loadedOnce_def first
    by (simp add: loadStockMetrics_one[OF h1 sampleMetrics_row] insertStockRow_def s first)
qed


section \<open>Extractor: isolation of a failed fetch\<close>

lemma fetchStockData_symbol: "rs_symbol (fetchStockData w symbol) = symbol"
  by (simp add: fetchStockData_def failedFetch_def split: sum.splits option.splits)

lemma fetchStockData_failed:
  assumes "fetchFails w"
  shows "\<exists>msg. fetchStockData w symbol =
           \<lparr> rs_symbol = symbol, rs_timeSeries = None, rs_overview = None,
             rs_error = Some msg, rs_extractedAt = fetchClock w \<rparr>"
  using assms
  by (auto simp: fetchFails_def seriesFails_def overviewFails_def fetchStockData_def
        failedFetch_def split: sum.splits option.splits)

lemma fetchStockData_fetched:
  assumes "\<not> fetchFails w"
  shows "rs_error (fetchStockData w symbol) = None
       \<and> rs_timeSeries (fetchStockData w symbol) \<noteq> None
       \<and> rs_overview (fetchStockData w symbol) \<noteq> None
       \<and> rs_extractedAt (fetchStockData w symbol) = fetchClock w"
  using assms
  by (auto simp: fetchFails_def seriesFails_def overviewFails_def fetchStockData_def
        failedFetch_def split: sum.splits option.splits)

lemma fetchStockData_cases:
  "(\<forall>e. seriesAnswer w = Inl e \<longrightarrow>
        fetchStockData w symbol =
          \<lparr> rs_symbol = symbol, rs_timeSeries = None, rs_overview = None,
            rs_error = Some (message e), rs_extractedAt = fetchClock w \<rparr>)
   \<and> (seriesAnswer w = Inr None \<longrightarrow>
        fetchStockData w symbol =
          \<lparr> rs_symbol = symbol, rs_timeSeries = None, rs_overview = None,
            rs_error = Some ''Cannot read properties of null'', rs_extractedAt = fetchClock w \<rparr>)
   \<and> (\<forall>body m. seriesAnswer w = Inr (Some body) \<and> errorMessage body = Some m \<and> m \<noteq> [] \<longrightarrow>
        fetchStockData w symbol =
          \<lparr> rs_symbol = symbol, rs_timeSeries = None, rs_overview = None,
            rs_error = Some (''Alpha Vantage API error for '' @ symbol @ '': '' @ m),
            rs_extractedAt = fetchClock w \<rparr>)
   \<and> (\<forall>body e. seriesAnswer w = Inr (Some body) \<and> \<not> truthy (errorMessage body)
                 \<and> overviewAnswer w = Inl e \<longrightarrow>
        fetchStockData w symbol =
          \<lparr> rs_symbol = symbol, rs_timeSeries = None, rs_overview = None,
            rs_error = Some (message e), rs_extractedAt = fetchClock w \<rparr>)
   \<and> (\<forall>body ov. seriesAnswer w = Inr (Some body) \<and> \<not> truthy (errorMessage body)
                 \<and> overviewAnswer w = Inr ov \<longrightarrow>
        fetchStockData w symbol =
          \<lparr> rs_symbol = symbol,
            rs_timeSeries = Some (case timeSeriesDaily body of None \<Rightarrow> [] | Some ts \<Rightarrow> ts),
            rs_overview = Some (case ov of None \<Rightarrow> Map.empty | Some m \<Rightarrow> m),
            rs_error = None, rs_extractedAt = fetchClock w \<rparr>)"
  by (simp add: fetchStockData_def failedFetch_def truthy_def)

text \<open>
  C7. The batch of an extraction has one raw record per requested identifier, in the order
  of the identifiers; the i-th is the result of the i-th fetch alone, whatever happens to
  the others. A failed fetch yields the record with the identifier, the error message and
  the extraction timestamp, and neither bars nor fundamentals: the message is that of the
  rejection of the series or of the overview request, that of the TypeError on a null
  body, or the upstream error message after \<open>Alpha Vantage API error for\<close>, the symbol
  and a colon. A fetch that does not fail yields the record without error that holds the
  series of the response (the empty one when the response has none) and the overview of
  the response (the empty one when the body is null).
\<close>

theorem C7_partial_failure_isolation:
  "length (stockData (extractAll ws iw written now symbols)) = length symbols
   \<and> (\<forall>i < length symbols.
        stockData (extractAll ws iw written now symbols) ! i = fetchStockData (ws i) (symbols ! i)
        \<and> rs_symbol (stockData (extractAll ws iw written now symbols) ! i) = symbols ! i
        \<and> (fetchFails (ws i) \<longrightarrow>
             (\<exists>msg. stockData (extractAll ws iw written now symbols) ! i =
                \<lparr> rs_symbol = symbols ! i, rs_timeSeries = None, rs_overview = None,
                  rs_error = Some msg, rs_extractedAt = fetchClock (ws i) \<rparr>))
        \<and> (\<not> fetchFails (ws i) \<longrightarrow>
             rs_error (stockData (extractAll ws iw written now symbols) ! i) = None
             \<and> rs_timeSeries (stockData (extractAll ws iw written now symbols) ! i) \<noteq> None
             \<and> rs_overview (stockData (extractAll ws iw written now symbols) ! i) \<noteq> None)
        \<and> (\<forall>e. seriesAnswer (ws i) = Inl e \<longrightarrow>
             stockData (extractAll ws iw written now symbols) ! i =
               \<lparr> rs_symbol = symbols ! i, rs_timeSeries = None, rs_overview = None,
                 rs_error = Some (message e), rs_extractedAt = fetchClock (ws i) \<rparr>)
        \<and> (seriesAnswer (ws i) = Inr None \<longrightarrow>
             stockData (extractAll ws iw written now symbols) ! i =
               \<lparr> rs_symbol = symbols ! i, rs_timeSeries = None, rs_overview = None,
                 rs_error = Some ''Cannot read properties of null'',
                 rs_extractedAt = fetchClock (ws i) \<rparr>)
        \<and> (\<forall>body m. seriesAnswer (ws i) = Inr (Some body) \<and> errorMessage body = Some m
                    \<and> m \<noteq> [] \<longrightarrow>
             stockData (extractAll ws iw written now symbols) ! i =
               \<lparr> rs_symbol = symbols ! i, rs_timeSeries = None, rs_overview = None,
                 rs_error = Some (''Alpha Vantage API error for '' @ symbols ! i @ '': '' @ m),
                 rs_extractedAt = fetchClock (ws i) \<rparr>)
        \<and> (\<forall>body e. seriesAnswer (ws i) = Inr (Some body) \<and> \<not> truthy (errorMessage body)
                    \<and> overviewAnswer (ws i) = Inl e \<longrightarrow>
             stockData (extractAll ws iw written now symbols) ! i =
               \<lparr> rs_symbol = symbols ! i, rs_timeSeries = None, rs_overview = None,
                 rs_error = Some (message e), rs_extractedAt = fetchClock (ws i) \<rparr>)
        \<and> (\<forall>body ov. seriesAnswer (ws i) = Inr (Some body) \<and> \<not> truthy (errorMessage body)
                    \<and> overviewAnswer (ws i) = Inr ov \<longrightarrow>
             stockData (extractAll ws iw written now symbols) ! i =
               \<lparr> rs_symbol = symbols ! i,
                 rs_timeSeries = Some (case timeSeriesDaily body of None \<Rightarrow> [] | Some ts \<Rightarrow> ts),
                 rs_overview = Some (case ov of None \<Rightarrow> Map.empty | Some m \<Rightarrow> m),
                 rs_error = None, rs_extractedAt = fetchClock (ws i) \<rparr>))"
proof -
  have len: "length (stockData (extractAll ws iw written now symbols)) = length symbols"
    by (simp add: extractAll_def Let_def)
  have each: "\<forall>i < length symbols.
        stockData (extractAll ws iw written now symbols) ! i = fetchStockData (ws i) (symbols ! i)
        \<and> rs_symbol (stockData (extractAll ws iw written now symbols) ! i) = symbols ! i
        \<and> (fetchFails (ws i) \<longrightarrow>
             (\<exists>msg. stockData (extractAll ws iw written now symbols) ! i =
                \<lparr> rs_symbol = symbols ! i, rs_timeSeries = None, rs_overview = None,
                  rs_error = Some msg, rs_extractedAt = fetchClock (ws i) \<rparr>))
        \<and> (\<not> fetchFails (ws i) \<longrightarrow>
             rs_error (stockData (extractAll ws iw written now symbols) ! i) = None
             \<and> rs_timeSeries (stockData (extractAll ws iw written now symbols) ! i) \<noteq> None
             \<and> rs_overview (stockData (extractAll ws iw written now symbols) ! i) \<noteq> None)
        \<and> (\<forall>e. seriesAnswer (ws i) = Inl e \<longrightarrow>
             stockData (extractAll ws iw written now symbols) ! i =
               \<lparr> rs_symbol = symbols ! i, rs_timeSeries = None, rs_overview = None,
                 rs_error = Some (message e), rs_extractedAt = fetchClock (ws i) \<rparr>)
        \<and> (seriesAnswer (ws i) = Inr None \<longrightarrow>
             stockData (extractAll ws iw written now symbols) ! i =
               \<lparr> rs_symbol = symbols ! i, rs_timeSeries = None, rs_overview = None,
                 rs_error = Some ''Cannot read properties of null'',
                 rs_extractedAt = fetchClock (ws i) \<rparr>)
        \<and> (\<forall>body m. seriesAnswer (ws i) = Inr (Some body) \<and> errorMessage body = Some m
                    \<and> m \<noteq> [] \<longrightarrow>
             stockData (extractAll ws iw written now symbols) ! i =
               \<lparr> rs_symbol = symbols ! i, rs_timeSeries = None, rs_overview = None,
                 rs_error = Some (''Alpha Vantage API error for '' @ symbols ! i @ '': '' @ m),
                 rs_extractedAt = fetchClock (ws i) \<rparr>)
        \<and> (\<forall>body e. seriesAnswer (ws i) = Inr (Some body) \<and> \<not> truthy (errorMessage body)
                    \<and> overviewAnswer (ws i) = Inl e \<longrightarrow>
             stockData (extractAll ws iw written now symbols) ! i =
               \<lparr> rs_symbol = symbols ! i, rs_timeSeries = None, rs_overview = None,
                 rs_error = Some (message e), rs_extractedAt = fetchClock (ws i) \<rparr>)
        \<and> (\<forall>body ov. seriesAnswer (ws i) = Inr (Some body) \<and> \<not> truthy (errorMessage body)
                    \<and> overviewAnswer (ws i) = Inr ov \<longrightarrow>
             stockData (extractAll ws iw written now symbols) ! i =
               \<lparr> rs_symbol = symbols ! i,
                 rs_timeSeries = Some (case timeSeriesDaily body of None \<Rightarrow> [] | Some ts \<Rightarrow> ts),
                 rs_overview = Some (case ov of None \<Rightarrow> Map.empty | Some m \<Rightarrow> m),
                 rs_error = None, rs_extractedAt = fetchClock (ws i) \<rparr>)"
  proof (intro allI impI)
    fix i assume i: "i < length symbols"
    have nth: "stockData (extractAll ws iw written now symbols) ! i =
                 fetchStockData (ws i) (symbols ! i)"
      using i by (simp add: extractAll_def Let_def)
    show "stockData (extractAll ws iw written now symbols) ! i = fetchStockData (ws i) (symbols ! i)
        \<and> rs_symbol (stockData (extractAll ws iw written now symbols) ! i) = symbols ! i
        \<and> (fetchFails (ws i) \<longrightarrow>
             (\<exists>msg. stockData (extractAll ws iw written now symbols) ! i =
                \<lparr> rs_symbol = symbols ! i, rs_timeSeries = None, rs_overview = None,
                  rs_error = Some msg, rs_extractedAt = fetchClock (ws i) \<rparr>))
        \<and> (\<not> fetchFails (ws i) \<longrightarrow>
             rs_error (stockData (extractAll ws iw written now symbols) ! i) = None
             \<and> rs_timeSeries (stockData (extractAll ws iw written now symbols) ! i) \<noteq> None
             \<and> rs_overview (stockData (extractAll ws iw written now symbols) ! i) \<noteq> None)
        \<and> (\<forall>e. seriesAnswer (ws i) = Inl e \<longrightarrow>
             stockData (extractAll ws iw written now symbols) ! i =
               \<lparr> rs_symbol = symbols ! i, rs_timeSeries = None, rs_overview = None,
                 rs_error = Some (message e), rs_extractedAt = fetchClock (ws i) \<rparr>)
        \<and> (seriesAnswer (ws i) = Inr None \<longrightarrow>
             stockData (extractAll ws iw written now symbols) ! i =
               \<lparr> rs_symbol = symbols ! i, rs_timeSeries = None, rs_overview = None,
                 rs_error = Some ''Cannot read properties of null'',
                 rs_extractedAt = fetchClock (ws i) \<rparr>)
        \<and> (\<forall>body m. seriesAnswer (ws i) = Inr (Some body) \<and> errorMessage body = Some m
                    \<and> m \<noteq> [] \<longrightarrow>
             stockData (extractAll ws iw written now symbols) ! i =
               \<lparr> rs_symbol = symbols ! i, rs_timeSeries = None, rs_overview = None,
                 rs_error = Some (''Alpha Vantage API error for '' @ symbols ! i @ '': '' @ m),
                 rs_extractedAt = fetchClock (ws i) \<rparr>)
        \<and> (\<forall>body e. seriesAnswer (ws i) = Inr (Some body) \<and> \<not> truthy (errorMessage body)
                    \<and> overviewAnswer (ws i) = Inl e \<longrightarrow>
             stockData (extractAll ws iw written now symbols) ! i =
               \<lparr> rs_symbol = symbols ! i, rs_timeSeries = None, rs_overview = None,
                 rs_error = Some (message e), rs_extractedAt = fetchClock (ws i) \<rparr>)
        \<and> (\<forall>body ov. seriesAnswer (ws i) = Inr (Some body) \<and> \<not> truthy (errorMessage body)
                    \<and> overviewAnswer (ws i) = Inr ov \<longrightarrow>
             stockData (extractAll ws iw written now symbols) ! i =
               \<lparr> rs_symbol = symbols ! i,
                 rs_timeSeries = Some (case timeSeriesDaily body of None \<Rightarrow> [] | Some ts \<Rightarrow> ts),
                 rs_overview = Some (case ov of None \<Rightarrow> Map.empty | Some m \<Rightarrow> m),
                 rs_error = None, rs_extractedAt = fetchClock (ws i) \<rparr>)"
      unfolding nth
      using fetchStockData_failed[of "ws i" "symbols ! i"]
        fetchStockData_fetched[of "ws i" "symbols ! i"]
        fetchStockData_cases[of "ws i" "symbols ! i"]
        fetchStockData_symbol[of "ws i" "symbols ! i"]
      by blast
  qed
  show ?thesis using len each by (rule conjI)
qed

theorem C7_partial_failure_isolation_witness:
  "length (stockData (extractAll secondFails sampleIndexWorld (Inr ''data/raw_data.json'')
             ''2023-02-01T00:00:01.000Z'' [''AAPL'', ''MSFT'', ''GOOGL''])) = 3
   \<and> stockData (extractAll secondFails sampleIndexWorld (Inr ''data/raw_data.json'')
             ''2023-02-01T00:00:01.000Z'' [''AAPL'', ''MSFT'', ''GOOGL'']) ! 0 =
          \<lparr> rs_symbol = ''AAPL'', rs_timeSeries = Some (sampleSeries 31),
            rs_overview = Some sampleOverview, rs_error = None,
            rs_extractedAt = ''2023-02-01T00:00:00.000Z'' \<rparr>
   \<and> stockData (extractAll secondFails sampleIndexWorld (Inr ''data/raw_data.json'')
             ''2023-02-01T00:00:01.000Z'' [''AAPL'', ''MSFT'', ''GOOGL'']) ! 1 =
          \<lparr> rs_symbol = ''MSFT'', rs_timeSeries = None, rs_overview = None,
            rs_error = Some ''Network Error'', rs_extractedAt = ''2023-02-01T00:00:00.000Z'' \<rparr>
   \<and> stockData (extractAll secondFails sampleIndexWorld (Inr ''data/raw_data.json'')
             ''2023-02-01T00:00:01.000Z'' [''AAPL'', ''MSFT'', ''GOOGL'']) ! 2 =
          \<lparr> rs_symbol = ''GOOGL'', rs_timeSeries = Some (sampleSeries 31),
            rs_overview = Some sampleOverview, rs_error = None,
            rs_extractedAt = ''2023-02-01T00:00:00.000Z'' \<rparr>"
proof -
  let ?body = "\<lparr> errorMessage = None, timeSeriesDaily = Some (sampleSeries 31) \<rparr>"
  have w0: "seriesAnswer (secondFails 0) = Inr (Some ?body)"
      "overviewAnswer (secondFails 0) = Inr (Some sampleOverview)"
      "fetchClock (secondFails 0) = ''2023-02-01T00:00:00.000Z''"
    by (simp_all add: secondFails_def okWorld_def)
  have w2: "seriesAnswer (secondFails 2) = Inr (Some ?body)"
      "overviewAnswer (secondFails 2) = Inr (Some sampleOverview)"
      "fetchClock (secondFails 2) = ''2023-02-01T00:00:00.000Z''"
    by (simp_all add: secondFails_def okWorld_def)
  have w1: "seriesAnswer (secondFails 1) = Inl (ErrorObj ''Network Error'')"
      "fetchClock (secondFails 1) = ''2023-02-01T00:00:00.000Z''"
    by (simp_all add: secondFails_def failingWorld_def)
  have tr: "\<not> truthy (errorMessage ?body)" by (simp add: truthy_def)
  have i0: "0 < length [''AAPL'', ''MSFT'', ''GOOGL'']"
    and i1: "1 < length [''AAPL'', ''MSFT'', ''GOOGL'']"
    and i2: "2 < length [''AAPL'', ''MSFT'', ''GOOGL'']"
    by simp_all
  note t = C7_partial_failure_isolation[of secondFails sampleIndexWorld "Inr ''data/raw_data.json''"
      "''2023-02-01T00:00:01.000Z''" "[''AAPL'', ''MSFT'', ''GOOGL'']"]
  have l: "length (stockData (extractAll secondFails sampleIndexWorld (Inr ''data/raw_data.json'')
             ''2023-02-01T00:00:01.000Z'' [''AAPL'', ''MSFT'', ''GOOGL''])) = 3"
    using t by simp
  note c0 = t[THEN conjunct2, rule_format, OF i0]
  note c1 = t[THEN conjunct2, rule_format, OF i1]
  note c2 = t[THEN conjunct2, rule_format, OF i2]
  have a0: "stockData (extractAll secondFails sampleIndexWorld (Inr ''data/raw_data.json'')
             ''2023-02-01T00:00:01.000Z'' [''AAPL'', ''MSFT'', ''GOOGL'']) ! 0 =
          \<lparr> rs_symbol = ''AAPL'', rs_timeSeries = Some (sampleSeries 31),
            rs_overview = Some sampleOverview, rs_error = None,
            rs_extractedAt = ''2023-02-01T00:00:00.000Z'' \<rparr>"
    using c0[THEN conjunct2, THEN conjunct2, THEN conjunct2, THEN conjunct2, THEN conjunct2,
          THEN conjunct2, THEN conjunct2, THEN conjunct2, rule_format,
          OF conjI[OF w0(1) conjI[OF tr w0(2)]]]
    by (simp add: w0(3))
  have a1: "stockData (extractAll secondFails sampleIndexWorld (Inr ''data/raw_data.json'')
             ''2023-02-01T00:00:01.000Z'' [''AAPL'', ''MSFT'', ''GOOGL'']) ! 1 =
          \<lparr> rs_symbol = ''MSFT'', rs_timeSeries = None, rs_overview = None,
            rs_error = Some ''Network Error'', rs_extractedAt = ''2023-02-01T00:00:00.000Z'' \<rparr>"
    using c1[THEN conjunct2, THEN conjunct2, THEN conjunct2, THEN conjunct2, THEN conjunct1, rule_format,
          OF w1(1), unfolded w1(2)] by simp
  have a2: "stockData (extractAll secondFails sampleIndexWorld (Inr ''data/raw_data.json'')
             ''2023-02-01T00:00:01.000Z'' [''AAPL'', ''MSFT'', ''GOOGL'']) ! 2 =
          \<lparr> rs_symbol = ''GOOGL'', rs_timeSeries = Some (sampleSeries 31),
            rs_overview = Some sampleOverview, rs_error = None,
            rs_extractedAt = ''2023-02-01T00:00:00.000Z'' \<rparr>"
    using c2[THEN conjunct2, THEN conjunct2, THEN conjunct2, THEN conjunct2, THEN conjunct2,
          THEN conjunct2, THEN conjunct2, THEN conjunct2, rule_format,
          OF conjI[OF w2(1) conjI[OF tr w2(2)]]]
    by (simp add: w2(3))
  show ?thesis using l a0 a1 a2 by blast
qed

section \<open>Extractor: the order of the requests\<close>

lemma resumeAll_no_start:
  "SeriesRequested s \<notin> set (resumeAll ws symbols schedule stages)"
proof (induction schedule arbitrary: stages)
  case Nil
  then show ?case by simp
next
  case (Cons i schedule)
  obtain es st where r: "resumeFetch (ws i) (symbols ! i) (stages ! i) = (es, st)"
    by (cases "resumeFetch (ws i) (symbols ! i) (stages ! i)")
  have "SeriesRequested s \<notin> set (fst (resumeFetch (ws i) (symbols ! i) (stages ! i)))"
    by (cases "stages ! i") auto
  then have "SeriesRequested s \<notin> set es" by (simp add: r)
  then show ?case
    using Cons.IH by (simp add: r)
qed

lemma extractEvents_prefix:
  "extractEvents ws schedule symbols =
     map SeriesRequested symbols
     @ resumeAll ws symbols schedule (map (\<lambda>s. AwaitSeries) symbols)"
proof -
  have "concat (map (\<lambda>s. fst (startFetch s)) symbols) = map SeriesRequested symbols"
    by (induction symbols) (simp_all add: startFetch_def)
  then show ?thesis by (simp add: extractEvents_def startFetch_def)
qed

lemma fetchEvents_sequential:
  "sequentialFrom None (fetchEvents w symbol @ es) = sequentialFrom None es"
  by (simp add: fetchEvents_def startFetch_def)

lemma sequentialExtractEvents_sequential:
  "sequentialEvents (sequentialExtractEvents ws symbols)"
proof -
  have "\<And>is. sequentialFrom None (concat (map (\<lambda>i. fetchEvents (ws i) (symbols ! i)) is))"
  proof -
    fix "is" :: "nat list"
    show "sequentialFrom None (concat (map (\<lambda>i. fetchEvents (ws i) (symbols ! i)) is))"
      by (induction "is") (simp_all add: fetchEvents_sequential)
  qed
  then show ?thesis by (simp add: sequentialEvents_def sequentialExtractEvents_def)
qed

text \<open>
  C4 on the code. \<open>extract\<close> calls \<open>fetchStockData\<close> for every symbol before it awaits
  any of them: whatever the answers and whatever the order in which they arrive, the
  events of an extraction begin with the series requests of all the symbols, and with two
  symbols or more the second fetch is started while the first has not returned, and before
  any wait has begun. The extraction that awaits each fetch before the next is sequential.
\<close>

theorem C4_fetches_start_together:
  assumes "2 \<le> length symbols"
  shows "take (length symbols) (extractEvents ws schedule symbols) = map SeriesRequested symbols
       \<and> \<not> sequentialEvents (extractEvents ws schedule symbols)
       \<and> sequentialEvents (sequentialExtractEvents ws symbols)"
proof -
  obtain a b rest where s: "symbols = a # b # rest"
    using assms by (cases symbols; cases "tl symbols") auto
  have "\<not> sequentialEvents (extractEvents ws schedule symbols)"
    by (simp add: extractEvents_prefix sequentialEvents_def s)
  then show ?thesis
    by (simp add: extractEvents_prefix sequentialExtractEvents_sequential)
qed

theorem C4_fetches_start_together_witness:
  "take 4 (extractEvents secondFails [0, 1, 2, 3, 0, 2, 3, 0, 2, 3] defaultStocks) =
     [SeriesRequested ''AAPL'', SeriesRequested ''MSFT'', SeriesRequested ''GOOGL'',
      SeriesRequested ''AMZN'']
   \<and> \<not> sequentialEvents (extractEvents secondFails [0, 1, 2, 3, 0, 2, 3, 0, 2, 3] defaultStocks)"
proof -
  have h: "2 \<le> length defaultStocks" by (simp add: defaultStocks_def)
  have l: "length defaultStocks = 4" by (simp add: defaultStocks_def)
  have m: "map SeriesRequested defaultStocks =
      [SeriesRequested ''AAPL'', SeriesRequested ''MSFT'', SeriesRequested ''GOOGL'',
       SeriesRequested ''AMZN'']"
    by (simp add: defaultStocks_def)
  show ?thesis
    using C4_fetches_start_together[OF h, of secondFails "[0, 1, 2, 3, 0, 2, 3, 0, 2, 3]"]
    unfolding l m by blast
qed


section \<open>Orchestrator: every failure becomes a result\<close>

text \<open>
  C6. Whatever the three stages do, \<open>runETLPipeline\<close> returns a result: it neither
  throws nor ends the process. If a stage throws, the result is
  \<open>{success: false, error}\<close> with the message of what the first failing stage threw; if
  none does, it is the success result.
\<close>

theorem C6_never_throws:
  "(\<exists>result. runETLPipeline extracted transform' load' = Returns result)
   \<and> (\<forall>err. runETLPipeline extracted transform' load' \<noteq> Throws err)
   \<and> (\<forall>code. runETLPipeline extracted transform' load' \<noteq> Exits code)
   \<and> (extracted = Inl e \<longrightarrow>
        runETLPipeline extracted transform' load' =
          Returns \<lparr> pr_success = False, pr_message = None, pr_error = Some (message e) \<rparr>)
   \<and> (extracted = Inr raw \<and> transform' raw = Inl e \<longrightarrow>
        runETLPipeline extracted transform' load' =
          Returns \<lparr> pr_success = False, pr_message = None, pr_error = Some (message e) \<rparr>)
   \<and> (extracted = Inr raw \<and> transform' raw = Inr t \<and> load' t = Inl e \<longrightarrow>
        runETLPipeline extracted transform' load' =
          Returns \<lparr> pr_success = False, pr_message = None, pr_error = Some (message e) \<rparr>)
   \<and> (extracted = Inr raw \<and> transform' raw = Inr t \<and> load' t = Inr r \<longrightarrow>
        runETLPipeline extracted transform' load' =
          Returns \<lparr> pr_success = True,
                    pr_message = Some ''ETL pipeline completed successfully'',
                    pr_error = None \<rparr>)"
proof -
  have "\<exists>result. runETLPipeline extracted transform' load' = Returns result"
    by (simp add: runETLPipeline_def split: sum.splits)
  then obtain result where r: "runETLPipeline extracted transform' load' = Returns result" ..
  have first: "(\<exists>result. runETLPipeline extracted transform' load' = Returns result)
       \<and> (\<forall>err. runETLPipeline extracted transform' load' \<noteq> Throws err)
       \<and> (\<forall>code. runETLPipeline extracted transform' load' \<noteq> Exits code)"
    by (simp add: r)
  show ?thesis
    using first by (simp add: runETLPipeline_def)
qed

lemma emptyMessage_transform_throws:
  "transform realOps isoValue (\<lambda>i. ''2023-02-01T00:00:02.000Z'')
     (extractAll (\<lambda>i. emptyMessageWorld) sampleIndexWorld (Inr ''data/raw_data.json'')
        ''2023-02-01T00:00:01.000Z'' [''AAPL''])
   = Inl (TypeError ''Cannot convert undefined or null to object'')"
  by (simp add: transform_def extractAll_def fetchStockData_def failedFetch_def
        emptyMessageWorld_def calculateStockMetrics_def truthy_def Let_def)

theorem C6_never_throws_witness:
  "samplePipeline =
     Returns \<lparr> pr_success = False, pr_message = None,
               pr_error = Some ''Cannot convert undefined or null to object'' \<rparr>"
proof -
  note t = C6_never_throws[of
      "Inr (extractAll (\<lambda>i. emptyMessageWorld) sampleIndexWorld (Inr ''data/raw_data.json'')
               ''2023-02-01T00:00:01.000Z'' [''AAPL''])"
      "transform realOps isoValue (\<lambda>i. ''2023-02-01T00:00:02.000Z'')"
      "\<lambda>t. Inr (load insertStockRow insertMarketRow ''2023-02-01T00:00:03.000Z'' emptyTables t)"
      "TypeError ''Cannot convert undefined or null to object''"
      "extractAll (\<lambda>i. emptyMessageWorld) sampleIndexWorld (Inr ''data/raw_data.json'')
               ''2023-02-01T00:00:01.000Z'' [''AAPL'']"]
  show ?thesis
    unfolding samplePipeline_def
    using t[THEN conjunct2, THEN conjunct2, THEN conjunct2, THEN conjunct2, THEN conjunct1]
      emptyMessage_transform_throws
    by simp
qed


end
